theory Spec2Isabelle
  imports Main "HOL-Library.Word"
begin

section \<open>The kubelet summary scraper: \<^verbatim>\<open>pkg/scraper/scraper.go\<close>\<close>

text \<open>
  The scraper pulls the kubelet's \<^verbatim>\<open>/stats/summary\<close> document and turns it into a sequence
  of Prometheus constant metrics. The embedding follows \<^verbatim>\<open>scraper.go\<close> function by function:
  \<^verbatim>\<open>NewScraper\<close>, \<^verbatim>\<open>Describe\<close>, \<^verbatim>\<open>Collect\<close>, \<^verbatim>\<open>parse\<close> and \<^verbatim>\<open>pushMetrics\<close>.
  A send on the channel \<^verbatim>\<open>ch\<close> appends to the list of metrics sent so far; the only field of
  the \<^verbatim>\<open>Scraper\<close> that is ever assigned after construction is \<^verbatim>\<open>errCnt\<close>. Log lines and the
  \<^verbatim>\<open>fmt.Println\<close> of line 876 are not part of the model.
\<close>

subsection \<open>Numbers\<close>

type_synonym uint64 = "64 word"
type_synonym int64 = "64 word"
type_synonym bytes = "8 word list"

text \<open>
  Every \<^verbatim>\<open>float64\<close> of this program is the conversion of a 64-bit integer, or is reached
  from \<open>0\<close> by \<^verbatim>\<open>errCnt++\<close>. All of these are integers, so a \<^verbatim>\<open>float64\<close> is modelled by the
  integer it denotes. A conversion and an increment round to 53 significant bits, to the
  nearest value and to the even significand on a tie (IEEE 754 binary64; no 64-bit integer
  leaves the exponent range).
\<close>

type_synonym float64 = int

function bitLen :: "int \<Rightarrow> nat" where
  "bitLen n = (if n \<le> 0 then 0 else Suc (bitLen (n div 2)))"
  by pat_completeness auto
termination
  by (relation "measure nat") auto

declare bitLen.simps [simp del]

definition roundToEven53 :: "int \<Rightarrow> int" where
  "roundToEven53 n =
     (let e = bitLen n - 53; q = n div 2 ^ e; r = n mod 2 ^ e
      in if 2 * r < 2 ^ e \<or> (2 * r = 2 ^ e \<and> even q) then q * 2 ^ e else (q + 1) * 2 ^ e)"

definition float64_of_int :: "int \<Rightarrow> float64" where
  "float64_of_int i = (if i < 0 then - roundToEven53 (- i) else roundToEven53 i)"

definition float64_of_uint64 :: "uint64 \<Rightarrow> float64" where
  \<comment> \<open>\<^verbatim>\<open>float64(*value)\<close> for a \<^verbatim>\<open>uint64\<close>\<close>
  "float64_of_uint64 w = float64_of_int (uint w)"

definition float64_of_int64 :: "int64 \<Rightarrow> float64" where
  \<comment> \<open>\<^verbatim>\<open>float64(*node.Rlimit.MaxPID)\<close> for an \<^verbatim>\<open>int64\<close>\<close>
  "float64_of_int64 w = float64_of_int (sint w)"

definition float64_inc :: "float64 \<Rightarrow> float64" where
  \<comment> \<open>\<^verbatim>\<open>s.errCnt++\<close>: the sum with 1, rounded\<close>
  "float64_inc x = float64_of_int (x + 1)"

subsection \<open>The Prometheus client: descriptors and constant metrics\<close>

text \<open>
  \<^verbatim>\<open>prometheus.BuildFQName\<close> joins the non-empty parts of a name with an underscore.
  \<^verbatim>\<open>prometheus.NewDesc\<close> is called with \<^verbatim>\<open>nil\<close> constant labels throughout, so a descriptor is
  its fully qualified name, its help text and its ordered variable labels.
  \<^verbatim>\<open>prometheus.NewConstMetric\<close> returns an error when the number of label values differs from
  the number of variable labels of the descriptor, and \<^verbatim>\<open>prometheus.MustNewConstMetric\<close> panics on
  that error: its result is \<open>None\<close> then, and the metric otherwise. The other two errors of
  \<^verbatim>\<open>NewConstMetric\<close> cannot arise here: the descriptors of \<^verbatim>\<open>NewScraper\<close> are well formed, and every
  label value is a literal or a string decoded by \<^verbatim>\<open>json.Unmarshal\<close>, hence valid UTF-8.
\<close>

record Desc =
  fqName :: string
  helpText :: string
  variableLabels :: "string list"

datatype ValueType = CounterValue | GaugeValue

record Metric =
  desc :: Desc
  valType :: ValueType
  val :: float64
  labelValues :: "string list"

definition BuildFQName :: "string \<Rightarrow> string \<Rightarrow> string \<Rightarrow> string" where
  "BuildFQName namespace subsystem name =
     (if name = [] then []
      else if namespace \<noteq> [] \<and> subsystem \<noteq> [] then namespace @ ''_'' @ subsystem @ ''_'' @ name
      else if namespace \<noteq> [] then namespace @ ''_'' @ name
      else if subsystem \<noteq> [] then subsystem @ ''_'' @ name
      else name)"

definition NewDesc :: "string \<Rightarrow> string \<Rightarrow> string list \<Rightarrow> Desc" where
  "NewDesc fq h ls = \<lparr>fqName = fq, helpText = h, variableLabels = ls\<rparr>"

definition constMetric :: "Desc \<Rightarrow> ValueType \<Rightarrow> float64 \<Rightarrow> string list \<Rightarrow> Metric" where
  \<comment> \<open>the metric that \<^verbatim>\<open>NewConstMetric\<close> builds when it returns no error\<close>
  "constMetric d t v lvs = \<lparr>desc = d, valType = t, val = v, labelValues = lvs\<rparr>"

definition MustNewConstMetric :: "Desc \<Rightarrow> ValueType \<Rightarrow> float64 \<Rightarrow> string list \<Rightarrow> Metric option" where
  "MustNewConstMetric d t v lvs =
     (if length lvs \<noteq> length (variableLabels d) then None else Some (constMetric d t v lvs))"

text \<open>
  A step of \<^verbatim>\<open>Collect\<close> is one statement \<^verbatim>\<open>ch <- prometheus.MustNewConstMetric(...)\<close>: it sends
  the metric, \<open>Some m\<close>, or it panics, \<open>None\<close>. Running a sequence of steps sends the metrics
  in order and stops at the first panic.
\<close>

type_synonym step = "Metric option"

datatype Outcome = Returned | Panicked | Exited

fun runSteps :: "step list \<Rightarrow> Metric list \<times> Outcome" where
  "runSteps [] = ([], Returned)"
| "runSteps (None # rest) = ([], Panicked)"
| "runSteps (Some m # rest) = (m # fst (runSteps rest), snd (runSteps rest))"

subsection \<open>The kubelet stats API: \<^verbatim>\<open>k8s.io/kubelet/pkg/apis/stats/v1alpha1\<close>\<close>

text \<open>
  \<^verbatim>\<open>scraper.go\<close> decodes into \<^verbatim>\<open>statsapi.Summary\<close> (import on line 20). The records below are
  the types of that package, with the fields that \<^verbatim>\<open>Collect\<close> reads; timestamps, the
  reference UIDs and the other fields it never reads are left out. A pointer field is an
  \<open>option\<close>, \<open>None\<close> for \<^verbatim>\<open>nil\<close>; the three numbers of an accelerator and the \<^verbatim>\<open>FsStats\<close>
  embedded in a \<^verbatim>\<open>VolumeStats\<close> are plain values (\<^verbatim>\<open>Collect\<close> takes the address of the former
  and reads the latter without a \<^verbatim>\<open>nil\<close> test). Field names carry the name of their struct
  where two structs share a name.
\<close>

record FsStats =
  CapacityBytes :: "uint64 option"
  UsedBytes :: "uint64 option"
  InodesFree :: "uint64 option"
  Inodes :: "uint64 option"
  InodesUsed :: "uint64 option"

record CPUStats =
  UsageNanoCores :: "uint64 option"
  UsageCoreNanoSeconds :: "uint64 option"

record MemoryStats =
  AvailableBytes :: "uint64 option"
  UsageBytes :: "uint64 option"
  WorkingSetBytes :: "uint64 option"
  RSSBytes :: "uint64 option"
  PageFaults :: "uint64 option"
  MajorPageFaults :: "uint64 option"

record SwapStats =
  SwapAvailableBytes :: "uint64 option"
  SwapUsageBytes :: "uint64 option"

record RlimitStats =
  MaxPID :: "int64 option"
  NumOfRunningProcesses :: "int64 option"

record InterfaceStats =
  Interface_Name :: string
  RxBytes :: "uint64 option"
  RxErrors :: "uint64 option"
  TxBytes :: "uint64 option"
  TxErrors :: "uint64 option"

record NetworkStats =
  Interfaces :: "InterfaceStats list"

record AcceleratorStats =
  Make :: string
  Model :: string
  ID :: string
  MemoryTotal :: uint64
  MemoryUsed :: uint64
  DutyCycle :: uint64

record ContainerStats =
  Container_Name :: string
  Container_CPU :: "CPUStats option"
  Container_Memory :: "MemoryStats option"
  Accelerators :: "AcceleratorStats list"
  Rootfs :: "FsStats option"
  Logs :: "FsStats option"
  Container_Swap :: "SwapStats option"

record RuntimeStats =
  ImageFs :: "FsStats option"
  ContainerFs :: "FsStats option"

record NodeStats =
  NodeName :: string
  SystemContainers :: "ContainerStats list"
  Node_CPU :: "CPUStats option"
  Node_Memory :: "MemoryStats option"
  Node_Network :: "NetworkStats option"
  Fs :: "FsStats option"
  Runtime :: "RuntimeStats option"
  Rlimit :: "RlimitStats option"
  Node_Swap :: "SwapStats option"

record PodReference =
  PodRef_Name :: string
  PodRef_Namespace :: string

record VolumeHealthStats =
  Abnormal :: bool

record VolumeStats =
  Volume_FsStats :: FsStats
  Volume_Name :: string
  Volume_HealthStats :: "VolumeHealthStats option"

record ProcessStats =
  ProcessCount :: "uint64 option"

record PodStats =
  PodRef :: PodReference
  Containers :: "ContainerStats list"
  Pod_CPU :: "CPUStats option"
  Pod_Memory :: "MemoryStats option"
  Pod_Network :: "NetworkStats option"
  Pod_VolumeStats :: "VolumeStats list"
  EphemeralStorage :: "FsStats option"
  Pod_ProcessStats :: "ProcessStats option"
  Pod_Swap :: "SwapStats option"

record Summary =
  Node :: NodeStats
  Pods :: "PodStats list"

subsection \<open>The scraper and its descriptors\<close>

text \<open>
  The descriptor fields of the \<^verbatim>\<open>Scraper\<close> struct are set once, by \<^verbatim>\<open>NewScraper\<close>, and never
  assigned again: they are constants here, under the names of the fields and in the order
  of \<^verbatim>\<open>NewScraper\<close>. The record keeps the configuration and the error count; \<^verbatim>\<open>NewScraper\<close>
  leaves \<^verbatim>\<open>errCnt\<close> at its zero value.
\<close>

record Scraper =
  tokenPath :: string
  timeout :: int
  targetIP :: string
  errCnt :: float64

definition NewScraper :: "string \<Rightarrow> string \<Rightarrow> int \<Rightarrow> Scraper" where
  "NewScraper ip path t = \<lparr>tokenPath = path, timeout = t, targetIP = ip, errCnt = 0\<rparr>"

definition containerRootFsUsedBytes :: Desc where
  "containerRootFsUsedBytes = NewDesc (BuildFQName ''kubelet_summary'' ''container_fs'' ''usage_bytes'')
     ''Disk used in bytes''
     [''node'', ''namespace'', ''pod'', ''container'']"

definition containerRootFsAvailableBytes :: Desc where
  "containerRootFsAvailableBytes = NewDesc (BuildFQName ''kubelet_summary'' ''container_fs'' ''limit_bytes'')
     ''Capacity of container disk''
     [''node'', ''namespace'', ''pod'', ''container'']"

definition containerRootFsInodesFree :: Desc where
  "containerRootFsInodesFree = NewDesc (BuildFQName ''kubelet_summary'' ''container_fs'' ''inodes_free'')
     ''Number of inodes free in container fs''
     [''node'', ''namespace'', ''pod'', ''container'']"

definition containerRootFsInodes :: Desc where
  "containerRootFsInodes = NewDesc (BuildFQName ''kubelet_summary'' ''container_fs'' ''inodes'')
     ''Number of inodes in container fs''
     [''node'', ''namespace'', ''pod'', ''container'']"

definition containerRootFsInodesUsed :: Desc where
  "containerRootFsInodesUsed = NewDesc (BuildFQName ''kubelet_summary'' ''container_fs'' ''inodes_used'')
     ''Number of inodes used in container fs''
     [''node'', ''namespace'', ''pod'', ''container'']"

definition containerLogsUsedBytes :: Desc where
  "containerLogsUsedBytes = NewDesc (BuildFQName ''kubelet_summary'' ''container_logs'' ''usage_bytes'')
     ''Logs space used in bytes''
     [''node'', ''namespace'', ''pod'', ''container'']"

definition containerLogsAvailableBytes :: Desc where
  "containerLogsAvailableBytes = NewDesc (BuildFQName ''kubelet_summary'' ''container_logs'' ''limit_bytes'')
     ''Capacity of container log space''
     [''node'', ''namespace'', ''pod'', ''container'']"

definition containerLogsInodesFree :: Desc where
  "containerLogsInodesFree = NewDesc (BuildFQName ''kubelet_summary'' ''container_logs'' ''inodes_free'')
     ''Number of inodes free in container log space''
     [''node'', ''namespace'', ''pod'', ''container'']"

definition containerLogsInodes :: Desc where
  "containerLogsInodes = NewDesc (BuildFQName ''kubelet_summary'' ''container_logs'' ''inodes'')
     ''Number of inodes in container log space''
     [''node'', ''namespace'', ''pod'', ''container'']"

definition containerLogsInodesUsed :: Desc where
  "containerLogsInodesUsed = NewDesc (BuildFQName ''kubelet_summary'' ''container_logs'' ''inodes_used'')
     ''Number of inodes used in container log space''
     [''node'', ''namespace'', ''pod'', ''container'']"

definition containerCPUUsageNanoCores :: Desc where
  "containerCPUUsageNanoCores = NewDesc (BuildFQName ''kubelet_summary'' ''container_cpu'' ''usage_nano_cores'')
     ''CPU usage in nanocores''
     [''node'', ''namespace'', ''pod'', ''container'']"

definition containerCPUUsageCoreNanoSeconds :: Desc where
  "containerCPUUsageCoreNanoSeconds = NewDesc (BuildFQName ''kubelet_summary'' ''container_cpu'' ''usage_core_nano_seconds'')
     ''CPU nanoseconds used''
     [''node'', ''namespace'', ''pod'', ''container'']"

definition containerMemoryAvailableBytes :: Desc where
  "containerMemoryAvailableBytes = NewDesc (BuildFQName ''kubelet_summary'' ''container_memory'' ''available_bytes'')
     ''available bytes in container memory''
     [''node'', ''namespace'', ''pod'', ''container'']"

definition containerMemoryUsageBytes :: Desc where
  "containerMemoryUsageBytes = NewDesc (BuildFQName ''kubelet_summary'' ''container_memory'' ''usage_bytes'')
     ''Used bytes in container memory''
     [''node'', ''namespace'', ''pod'', ''container'']"

definition containerMemoryWorkingSetBytes :: Desc where
  "containerMemoryWorkingSetBytes = NewDesc (BuildFQName ''kubelet_summary'' ''container_memory'' ''working_set_bytes'')
     ''working set bytes in container memory''
     [''node'', ''namespace'', ''pod'', ''container'']"

definition containerMemoryRSSBytes :: Desc where
  "containerMemoryRSSBytes = NewDesc (BuildFQName ''kubelet_summary'' ''container_memory'' ''rss_bytes'')
     ''rss bytes in container memory''
     [''node'', ''namespace'', ''pod'', ''container'']"

definition containerMemoryPageFaults :: Desc where
  "containerMemoryPageFaults = NewDesc (BuildFQName ''kubelet_summary'' ''container_memory'' ''page_faults'')
     ''Page faults in container memory''
     [''node'', ''namespace'', ''pod'', ''container'']"

definition containerMemoryMajorPageFaults :: Desc where
  "containerMemoryMajorPageFaults = NewDesc (BuildFQName ''kubelet_summary'' ''container_memory'' ''major_page_faults'')
     ''Major page faults in container memory''
     [''node'', ''namespace'', ''pod'', ''container'']"

definition containerSwapAvailableBytes :: Desc where
  "containerSwapAvailableBytes = NewDesc (BuildFQName ''kubelet_summary'' ''container_swap'' ''available_bytes'')
     ''Available bytes in container's swap storage''
     [''node'', ''namespace'', ''pod'', ''container'']"

definition containerSwapUsageBytes :: Desc where
  "containerSwapUsageBytes = NewDesc (BuildFQName ''kubelet_summary'' ''container_swap'' ''usage_bytes'')
     ''Used bytes in container's swap storage''
     [''node'', ''namespace'', ''pod'', ''container'']"

definition containerAcceleratorMemoryTotal :: Desc where
  "containerAcceleratorMemoryTotal = NewDesc (BuildFQName ''kubelet_summary'' ''container_accelerator'' ''memory_total'')
     ''Total memory in container's accelerator''
     [''node'', ''namespace'', ''pod'', ''container'', ''id'', ''model'', ''make'']"

definition containerAcceleratorMemoryUsed :: Desc where
  "containerAcceleratorMemoryUsed = NewDesc (BuildFQName ''kubelet_summary'' ''container_accelerator'' ''memory_used'')
     ''Memory used in container's accelerator''
     [''node'', ''namespace'', ''pod'', ''container'', ''id'', ''model'', ''make'']"

definition containerAcceleratorDutyCycle :: Desc where
  "containerAcceleratorDutyCycle = NewDesc (BuildFQName ''kubelet_summary'' ''container_accelerator'' ''duty_cycle'')
     ''Percentage of time over which accelerator was allocated''
     [''node'', ''namespace'', ''pod'', ''container'', ''id'', ''model'', ''make'']"

definition podCPUUsageNanoCores :: Desc where
  "podCPUUsageNanoCores = NewDesc (BuildFQName ''kubelet_summary'' ''pod_cpu'' ''usage_nano_cores'')
     ''CPU usage in nanocores''
     [''node'', ''namespace'', ''pod'']"

definition podCPUUsageCoreNanoSeconds :: Desc where
  "podCPUUsageCoreNanoSeconds = NewDesc (BuildFQName ''kubelet_summary'' ''pod_cpu'' ''usage_core_nano_seconds'')
     ''CPU nanoseconds used''
     [''node'', ''namespace'', ''pod'']"

definition podMemoryAvailableBytes :: Desc where
  "podMemoryAvailableBytes = NewDesc (BuildFQName ''kubelet_summary'' ''pod_memory'' ''available_bytes'')
     ''available bytes in pod memory''
     [''node'', ''namespace'', ''pod'']"

definition podMemoryUsageBytes :: Desc where
  "podMemoryUsageBytes = NewDesc (BuildFQName ''kubelet_summary'' ''pod_memory'' ''usage_bytes'')
     ''Used bytes in pod memory''
     [''node'', ''namespace'', ''pod'']"

definition podMemoryWorkingSetBytes :: Desc where
  "podMemoryWorkingSetBytes = NewDesc (BuildFQName ''kubelet_summary'' ''pod_memory'' ''working_set_bytes'')
     ''working set bytes in pod memory''
     [''node'', ''namespace'', ''pod'']"

definition podMemoryRSSBytes :: Desc where
  "podMemoryRSSBytes = NewDesc (BuildFQName ''kubelet_summary'' ''pod_memory'' ''rss_bytes'')
     ''rss bytes in pod memory''
     [''node'', ''namespace'', ''pod'']"

definition podMemoryPageFaults :: Desc where
  "podMemoryPageFaults = NewDesc (BuildFQName ''kubelet_summary'' ''pod_memory'' ''page_faults'')
     ''Page faults in pod memory''
     [''node'', ''namespace'', ''pod'']"

definition podMemoryMajorPageFaults :: Desc where
  "podMemoryMajorPageFaults = NewDesc (BuildFQName ''kubelet_summary'' ''pod_memory'' ''major_page_faults'')
     ''Major page faults in pod memory''
     [''node'', ''namespace'', ''pod'']"

definition podSwapAvailableBytes :: Desc where
  "podSwapAvailableBytes = NewDesc (BuildFQName ''kubelet_summary'' ''pod_swap'' ''available_bytes'')
     ''Available bytes in pod's swap storage''
     [''node'', ''namespace'', ''pod'']"

definition podSwapUsageBytes :: Desc where
  "podSwapUsageBytes = NewDesc (BuildFQName ''kubelet_summary'' ''pod_swap'' ''usage_bytes'')
     ''Used bytes in pod's swap storage''
     [''node'', ''namespace'', ''pod'']"

definition podEphemeralStorageUsedBytes :: Desc where
  "podEphemeralStorageUsedBytes = NewDesc (BuildFQName ''kubelet_summary'' ''pod_ephemeral_storage'' ''usage_bytes'')
     ''Amount of bytes used in pod's ephemeral storage''
     [''node'', ''namespace'', ''pod'']"

definition podEphemeralStorageAvailableBytes :: Desc where
  "podEphemeralStorageAvailableBytes = NewDesc (BuildFQName ''kubelet_summary'' ''pod_ephemeral_storage'' ''limit_bytes'')
     ''Capacity of pod's ephemeral storage in bytes''
     [''node'', ''namespace'', ''pod'']"

definition podEphemeralStorageInodesFree :: Desc where
  "podEphemeralStorageInodesFree = NewDesc (BuildFQName ''kubelet_summary'' ''pod_ephemeral_storage'' ''inodes_free'')
     ''Number of inodes free in pod's ephemeral storage''
     [''node'', ''namespace'', ''pod'']"

definition podEphemeralStorageInodes :: Desc where
  "podEphemeralStorageInodes = NewDesc (BuildFQName ''kubelet_summary'' ''pod_ephemeral_storage'' ''inodes'')
     ''Number of inodes in pod's ephemeral storage''
     [''node'', ''namespace'', ''pod'']"

definition podEphemeralStorageInodesUsed :: Desc where
  "podEphemeralStorageInodesUsed = NewDesc (BuildFQName ''kubelet_summary'' ''pod_ephemeral_storage'' ''inodes_used'')
     ''Number of inodes used in pod's ephemeral storage''
     [''node'', ''namespace'', ''pod'']"

definition podVolumeUsedBytes :: Desc where
  "podVolumeUsedBytes = NewDesc (BuildFQName ''kubelet_summary'' ''pod_volume'' ''usage_bytes'')
     ''Pod volume used in bytes''
     [''node'', ''namespace'', ''pod'', ''volume_name'']"

definition podVolumeAvailableBytes :: Desc where
  "podVolumeAvailableBytes = NewDesc (BuildFQName ''kubelet_summary'' ''pod_volume'' ''limit_bytes'')
     ''Capacity of pod volume in bytes''
     [''node'', ''namespace'', ''pod'', ''volume_name'']"

definition podVolumeInodesFree :: Desc where
  "podVolumeInodesFree = NewDesc (BuildFQName ''kubelet_summary'' ''pod_volume'' ''inodes_free'')
     ''Number of inodes free in pod volume''
     [''node'', ''namespace'', ''pod'', ''volume_name'']"

definition podVolumeInodes :: Desc where
  "podVolumeInodes = NewDesc (BuildFQName ''kubelet_summary'' ''pod_volume'' ''inodes'')
     ''Number of inodes in pod volume''
     [''node'', ''namespace'', ''pod'', ''volume_name'']"

definition podVolumeInodesUsed :: Desc where
  "podVolumeInodesUsed = NewDesc (BuildFQName ''kubelet_summary'' ''pod_volume'' ''inodes_used'')
     ''Number of inodes used in pod volume''
     [''node'', ''namespace'', ''pod'', ''volume_name'']"

definition podVolumeHealthStatus :: Desc where
  "podVolumeHealthStatus = NewDesc (BuildFQName ''kubelet_summary'' ''pod_volume'' ''health_status'')
     ''Health status of pod volume''
     [''node'', ''namespace'', ''pod'', ''volume_name'']"

definition podInterfaceRxBytes :: Desc where
  "podInterfaceRxBytes = NewDesc (BuildFQName ''kubelet_summary'' ''pod_interface'' ''rx_bytes'')
     ''Cumulative count of receive bytes''
     [''node'', ''namespace'', ''pod'', ''name'']"

definition podInterfaceRxErrors :: Desc where
  "podInterfaceRxErrors = NewDesc (BuildFQName ''kubelet_summary'' ''pod_interface'' ''rx_errors'')
     ''Cumulative count of receive errors''
     [''node'', ''namespace'', ''pod'', ''name'']"

definition podInterfaceTxBytes :: Desc where
  "podInterfaceTxBytes = NewDesc (BuildFQName ''kubelet_summary'' ''pod_interface'' ''tx_bytes'')
     ''Cumulative count of transmit bytes''
     [''node'', ''namespace'', ''pod'', ''name'']"

definition podInterfaceTxErrors :: Desc where
  "podInterfaceTxErrors = NewDesc (BuildFQName ''kubelet_summary'' ''pod_interface'' ''tx_errors'')
     ''Cumulative count of transmit errors''
     [''node'', ''namespace'', ''pod'', ''name'']"

definition podProcessCount :: Desc where
  "podProcessCount = NewDesc (BuildFQName ''kubelet_summary'' ''pod'' ''process_count'')
     ''Count of process in pod''
     [''node'', ''namespace'', ''pod'']"

definition nodeFsUsedBytes :: Desc where
  "nodeFsUsedBytes = NewDesc (BuildFQName ''kubelet_summary'' ''node_fs'' ''usage_bytes'')
     ''Disk used in bytes''
     [''node'']"

definition nodeFsAvailableBytes :: Desc where
  "nodeFsAvailableBytes = NewDesc (BuildFQName ''kubelet_summary'' ''node_fs'' ''limit_bytes'')
     ''Capacity of container disk''
     [''node'']"

definition nodeFsInodesFree :: Desc where
  "nodeFsInodesFree = NewDesc (BuildFQName ''kubelet_summary'' ''node_fs'' ''inodes_free'')
     ''Number of inodes free in node fs''
     [''node'']"

definition nodeFsInodes :: Desc where
  "nodeFsInodes = NewDesc (BuildFQName ''kubelet_summary'' ''node_fs'' ''inodes'')
     ''Number of inodes in node fs''
     [''node'']"

definition nodeFsInodesUsed :: Desc where
  "nodeFsInodesUsed = NewDesc (BuildFQName ''kubelet_summary'' ''node_fs'' ''inodes_used'')
     ''Number of inodes used in node fs''
     [''node'']"

definition nodeRuntimeImageFsUsedBytes :: Desc where
  "nodeRuntimeImageFsUsedBytes = NewDesc (BuildFQName ''kubelet_summary'' ''node_runtime_image_fs'' ''usage_bytes'')
     ''Usage of node runtime image fs in bytes''
     [''node'']"

definition nodeRuntimeImageFsAvailableBytes :: Desc where
  "nodeRuntimeImageFsAvailableBytes = NewDesc (BuildFQName ''kubelet_summary'' ''node_runtime_image_fs'' ''limit_bytes'')
     ''Capacity of node runtime image fs in bytes''
     [''node'']"

definition nodeRuntimeImageFsInodesFree :: Desc where
  "nodeRuntimeImageFsInodesFree = NewDesc (BuildFQName ''kubelet_summary'' ''node_runtime_image_fs'' ''inodes_free'')
     ''Inodes free in node's runtime image fs''
     [''node'']"

definition nodeRuntimeImageFsInodes :: Desc where
  "nodeRuntimeImageFsInodes = NewDesc (BuildFQName ''kubelet_summary'' ''node_runtime_image_fs'' ''inodes'')
     ''Inodes in node's runtime image fs''
     [''node'']"

definition nodeRuntimeImageFsInodesUsed :: Desc where
  "nodeRuntimeImageFsInodesUsed = NewDesc (BuildFQName ''kubelet_summary'' ''node_runtime_image_fs'' ''inodes_used'')
     ''Inodes used in node's runtime image fs''
     [''node'']"

definition nodeRuntimeContainerFsUsedBytes :: Desc where
  "nodeRuntimeContainerFsUsedBytes = NewDesc (BuildFQName ''kubelet_summary'' ''node_runtime_container_fs'' ''usage_bytes'')
     ''Usage of node runtime container's writeable layer in bytes''
     [''node'']"

definition nodeRuntimeContainerFsAvailableBytes :: Desc where
  "nodeRuntimeContainerFsAvailableBytes = NewDesc (BuildFQName ''kubelet_summary'' ''node_runtime_container_fs'' ''limit_bytes'')
     ''Capacity of node runtime container's writeable layer in bytes''
     [''node'']"

definition nodeRuntimeContainerFsInodesFree :: Desc where
  "nodeRuntimeContainerFsInodesFree = NewDesc (BuildFQName ''kubelet_summary'' ''node_runtime_container_fs'' ''inodes_free'')
     ''Count of free Inodes in node runtime container fs''
     [''node'']"

definition nodeRuntimeContainerFsInodes :: Desc where
  "nodeRuntimeContainerFsInodes = NewDesc (BuildFQName ''kubelet_summary'' ''node_runtime_container_fs'' ''inodes'')
     ''Total inodes in node's runtime container fs''
     [''node'']"

definition nodeRuntimeContainerFsInodesUsed :: Desc where
  "nodeRuntimeContainerFsInodesUsed = NewDesc (BuildFQName ''kubelet_summary'' ''node_runtime_container_fs'' ''inodes_used'')
     ''Count of inodes being used''
     [''node'']"

definition nodeCPUUsageNanoCores :: Desc where
  "nodeCPUUsageNanoCores = NewDesc (BuildFQName ''kubelet_summary'' ''node_cpu'' ''usage_nano_cores'')
     ''CPU usage in nanocores''
     [''node'']"

definition nodeCPUUsageCoreNanoSeconds :: Desc where
  "nodeCPUUsageCoreNanoSeconds = NewDesc (BuildFQName ''kubelet_summary'' ''node_cpu'' ''usage_core_nano_seconds'')
     ''CPU nanoseconds used''
     [''node'']"

definition nodeMemoryAvailableBytes :: Desc where
  "nodeMemoryAvailableBytes = NewDesc (BuildFQName ''kubelet_summary'' ''node_memory'' ''available_bytes'')
     ''available bytes in node memory''
     [''node'']"

definition nodeMemoryUsageBytes :: Desc where
  "nodeMemoryUsageBytes = NewDesc (BuildFQName ''kubelet_summary'' ''node_memory'' ''usage_bytes'')
     ''Used bytes in node memory''
     [''node'']"

definition nodeMemoryWorkingSetBytes :: Desc where
  "nodeMemoryWorkingSetBytes = NewDesc (BuildFQName ''kubelet_summary'' ''node_memory'' ''working_set_bytes'')
     ''working set bytes in node memory''
     [''node'']"

definition nodeMemoryRSSBytes :: Desc where
  "nodeMemoryRSSBytes = NewDesc (BuildFQName ''kubelet_summary'' ''node_memory'' ''rss_bytes'')
     ''rss bytes in node memory''
     [''node'']"

definition nodeMemoryPageFaults :: Desc where
  "nodeMemoryPageFaults = NewDesc (BuildFQName ''kubelet_summary'' ''node_memory'' ''page_faults'')
     ''Page faults in node memory''
     [''node'']"

definition nodeMemoryMajorPageFaults :: Desc where
  "nodeMemoryMajorPageFaults = NewDesc (BuildFQName ''kubelet_summary'' ''node_memory'' ''major_page_faults'')
     ''Major page faults in node memory''
     [''node'']"

definition nodeSwapAvailableBytes :: Desc where
  "nodeSwapAvailableBytes = NewDesc (BuildFQName ''kubelet_summary'' ''node_swap'' ''available_bytes'')
     ''Available bytes in node's swap storage''
     [''node'']"

definition nodeSwapUsageBytes :: Desc where
  "nodeSwapUsageBytes = NewDesc (BuildFQName ''kubelet_summary'' ''node_swap'' ''usage_bytes'')
     ''Used bytes in node's swap storage''
     [''node'']"

definition nodeRLimitMaxPID :: Desc where
  "nodeRLimitMaxPID = NewDesc (BuildFQName ''kubelet_summary'' ''node_rlimit'' ''max_pid'')
     ''Maximum PID''
     [''node'']"

definition nodeRLimitNumOfRunningProcess :: Desc where
  "nodeRLimitNumOfRunningProcess = NewDesc (BuildFQName ''kubelet_summary'' ''node_rlimit'' ''num_of_running_process'')
     ''Number of running process in node''
     [''node'']"

definition nodeInterfaceRxBytes :: Desc where
  "nodeInterfaceRxBytes = NewDesc (BuildFQName ''kubelet_summary'' ''node_interface'' ''rx_bytes'')
     ''Cumulative count of receive bytes''
     [''node'', ''name'']"

definition nodeInterfaceRxErrors :: Desc where
  "nodeInterfaceRxErrors = NewDesc (BuildFQName ''kubelet_summary'' ''node_interface'' ''rx_errors'')
     ''Cumulative count of receive errors''
     [''node'', ''name'']"

definition nodeInterfaceTxBytes :: Desc where
  "nodeInterfaceTxBytes = NewDesc (BuildFQName ''kubelet_summary'' ''node_interface'' ''tx_bytes'')
     ''Cumulative count of transmit bytes''
     [''node'', ''name'']"

definition nodeInterfaceTxErrors :: Desc where
  "nodeInterfaceTxErrors = NewDesc (BuildFQName ''kubelet_summary'' ''node_interface'' ''tx_errors'')
     ''Cumulative count of transmit errors''
     [''node'', ''name'']"

definition nodeSystemContainerRootFsUsedBytes :: Desc where
  "nodeSystemContainerRootFsUsedBytes = NewDesc (BuildFQName ''kubelet_summary'' ''node_system_container_fs'' ''usage_bytes'')
     ''Disk used in bytes''
     [''node'', ''container'']"

definition nodeSystemContainerRootFsAvailableBytes :: Desc where
  "nodeSystemContainerRootFsAvailableBytes = NewDesc (BuildFQName ''kubelet_summary'' ''node_system_container_fs'' ''limit_bytes'')
     ''Capacity of nodeSystemContainer disk''
     [''node'', ''container'']"

definition nodeSystemContainerRootFsInodesFree :: Desc where
  "nodeSystemContainerRootFsInodesFree = NewDesc (BuildFQName ''kubelet_summary'' ''node_system_container_fs'' ''inodes_free'')
     ''Capacity of nodeSystemContainer disk''
     [''node'', ''container'']"

definition nodeSystemContainerRootFsInodes :: Desc where
  "nodeSystemContainerRootFsInodes = NewDesc (BuildFQName ''kubelet_summary'' ''node_system_container_fs'' ''inodes'')
     ''Capacity of nodeSystemContainer disk''
     [''node'', ''container'']"

definition nodeSystemContainerRootFsInodesUsed :: Desc where
  "nodeSystemContainerRootFsInodesUsed = NewDesc (BuildFQName ''kubelet_summary'' ''node_system_container_fs'' ''inodes_used'')
     ''Capacity of nodeSystemContainer disk''
     [''node'', ''container'']"

definition nodeSystemContainerLogsUsedBytes :: Desc where
  "nodeSystemContainerLogsUsedBytes = NewDesc (BuildFQName ''kubelet_summary'' ''node_system_container_logs'' ''usage_bytes'')
     ''Disk used in bytes''
     [''node'', ''container'']"

definition nodeSystemContainerLogsAvailableBytes :: Desc where
  "nodeSystemContainerLogsAvailableBytes = NewDesc (BuildFQName ''kubelet_summary'' ''node_system_container_logs'' ''limit_bytes'')
     ''Capacity of nodeSystemContainer disk''
     [''node'', ''container'']"

definition nodeSystemContainerLogsInodesFree :: Desc where
  "nodeSystemContainerLogsInodesFree = NewDesc (BuildFQName ''kubelet_summary'' ''node_system_container_logs'' ''inodes_free'')
     ''Capacity of nodeSystemContainer disk''
     [''node'', ''container'']"

definition nodeSystemContainerLogsInodes :: Desc where
  "nodeSystemContainerLogsInodes = NewDesc (BuildFQName ''kubelet_summary'' ''node_system_container_logs'' ''inodes'')
     ''Capacity of nodeSystemContainer disk''
     [''node'', ''container'']"

definition nodeSystemContainerLogsInodesUsed :: Desc where
  "nodeSystemContainerLogsInodesUsed = NewDesc (BuildFQName ''kubelet_summary'' ''node_system_container_logs'' ''inodes_used'')
     ''Capacity of nodeSystemContainer disk''
     [''node'', ''container'']"

definition nodeSystemContainerCPUUsageNanoCores :: Desc where
  "nodeSystemContainerCPUUsageNanoCores = NewDesc (BuildFQName ''kubelet_summary'' ''node_system_container_cpu'' ''usage_nano_cores'')
     ''CPU usage in nanocores''
     [''node'', ''container'']"

definition nodeSystemContainerCPUUsageCoreNanoSeconds :: Desc where
  "nodeSystemContainerCPUUsageCoreNanoSeconds = NewDesc (BuildFQName ''kubelet_summary'' ''node_system_container_cpu'' ''usage_core_nano_seconds'')
     ''CPU usage in core nanoseconds''
     [''node'', ''container'']"

definition nodeSystemContainerMemoryAvailableBytes :: Desc where
  "nodeSystemContainerMemoryAvailableBytes = NewDesc (BuildFQName ''kubelet_summary'' ''node_system_container_memory'' ''available_bytes'')
     ''available bytes in nodeSystemContainer memory''
     [''node'', ''container'']"

definition nodeSystemContainerMemoryUsageBytes :: Desc where
  "nodeSystemContainerMemoryUsageBytes = NewDesc (BuildFQName ''kubelet_summary'' ''node_system_container_memory'' ''usage_bytes'')
     ''Used bytes in nodeSystemContainer memory''
     [''node'', ''container'']"

definition nodeSystemContainerMemoryWorkingSetBytes :: Desc where
  "nodeSystemContainerMemoryWorkingSetBytes = NewDesc (BuildFQName ''kubelet_summary'' ''node_system_container_memory'' ''working_set_bytes'')
     ''working set bytes in nodeSystemContainer memory''
     [''node'', ''container'']"

definition nodeSystemContainerMemoryRSSBytes :: Desc where
  "nodeSystemContainerMemoryRSSBytes = NewDesc (BuildFQName ''kubelet_summary'' ''node_system_container_memory'' ''rss_bytes'')
     ''rss bytes in nodeSystemContainer memory''
     [''node'', ''container'']"

definition nodeSystemContainerMemoryPageFaults :: Desc where
  "nodeSystemContainerMemoryPageFaults = NewDesc (BuildFQName ''kubelet_summary'' ''node_system_container_memory'' ''page_faults'')
     ''Page faults in nodeSystemContainer memory''
     [''node'', ''container'']"

definition nodeSystemContainerMemoryMajorPageFaults :: Desc where
  "nodeSystemContainerMemoryMajorPageFaults = NewDesc (BuildFQName ''kubelet_summary'' ''node_system_container_memory'' ''major_page_faults'')
     ''Major page faults in nodeSystemContainer memory''
     [''node'', ''container'']"

definition nodeSystemContainerSwapAvailableBytes :: Desc where
  "nodeSystemContainerSwapAvailableBytes = NewDesc (BuildFQName ''kubelet_summary'' ''node_system_container_swap'' ''available_bytes'')
     ''Available bytes in nodeSystemContainer's swap storage''
     [''node'', ''container'']"

definition nodeSystemContainerSwapUsageBytes :: Desc where
  "nodeSystemContainerSwapUsageBytes = NewDesc (BuildFQName ''kubelet_summary'' ''node_system_container_swap'' ''usage_bytes'')
     ''Used bytes in nodeSystemContainer's swap storage''
     [''node'', ''container'']"

definition nodeSystemContainerAcceleratorMemoryTotal :: Desc where
  "nodeSystemContainerAcceleratorMemoryTotal = NewDesc (BuildFQName ''kubelet_summary'' ''node_system_container_accelerator'' ''memory_total'')
     ''Total memory in nodeSystemContainer's accelerator''
     [''node'', ''container'', ''id'', ''model'', ''make'']"

definition nodeSystemContainerAcceleratorMemoryUsed :: Desc where
  "nodeSystemContainerAcceleratorMemoryUsed = NewDesc (BuildFQName ''kubelet_summary'' ''node_system_container_accelerator'' ''memory_used'')
     ''Memory used in nodeSystemContainer's accelerator''
     [''node'', ''container'', ''id'', ''model'', ''make'']"

definition nodeSystemContainerAcceleratorDutyCycle :: Desc where
  "nodeSystemContainerAcceleratorDutyCycle = NewDesc (BuildFQName ''kubelet_summary'' ''node_system_container_accelerator'' ''duty_cycle'')
     ''Percentage of time over which accelerator was allocated''
     [''node'', ''container'', ''id'', ''model'', ''make'']"

definition errors :: Desc where
  "errors = NewDesc (BuildFQName ''kubelet_summary_exporter'' '''' ''errors'')
     ''Errors scraping kubelet stats summary''
     [''type'']"

definition Describe :: "Desc list" where
  "Describe =
   [errors,
    nodeFsUsedBytes,
    nodeFsAvailableBytes,
    nodeFsInodesFree,
    nodeFsInodes,
    nodeFsInodesUsed,
    nodeRuntimeImageFsUsedBytes,
    nodeRuntimeImageFsAvailableBytes,
    nodeRuntimeImageFsInodesFree,
    nodeRuntimeImageFsInodes,
    nodeRuntimeImageFsInodesUsed,
    nodeRuntimeContainerFsUsedBytes,
    nodeRuntimeContainerFsAvailableBytes,
    nodeRuntimeContainerFsInodesFree,
    nodeRuntimeContainerFsInodes,
    nodeRuntimeContainerFsInodesUsed,
    nodeCPUUsageNanoCores,
    nodeCPUUsageCoreNanoSeconds,
    nodeMemoryAvailableBytes,
    nodeMemoryUsageBytes,
    nodeMemoryWorkingSetBytes,
    nodeMemoryRSSBytes,
    nodeMemoryPageFaults,
    nodeMemoryMajorPageFaults,
    nodeSwapAvailableBytes,
    nodeSwapUsageBytes,
    nodeRLimitMaxPID,
    nodeRLimitNumOfRunningProcess,
    nodeInterfaceRxBytes,
    nodeInterfaceRxErrors,
    nodeInterfaceTxBytes,
    nodeInterfaceTxErrors,
    nodeSystemContainerRootFsUsedBytes,
    nodeSystemContainerRootFsAvailableBytes,
    nodeSystemContainerRootFsInodesFree,
    nodeSystemContainerRootFsInodes,
    nodeSystemContainerRootFsInodesUsed,
    nodeSystemContainerLogsUsedBytes,
    nodeSystemContainerLogsAvailableBytes,
    nodeSystemContainerLogsInodesFree,
    nodeSystemContainerLogsInodes,
    nodeSystemContainerLogsInodesUsed,
    nodeSystemContainerCPUUsageNanoCores,
    nodeSystemContainerCPUUsageCoreNanoSeconds,
    nodeSystemContainerMemoryAvailableBytes,
    nodeSystemContainerMemoryUsageBytes,
    nodeSystemContainerMemoryWorkingSetBytes,
    nodeSystemContainerMemoryRSSBytes,
    nodeSystemContainerMemoryPageFaults,
    nodeSystemContainerMemoryMajorPageFaults,
    nodeSystemContainerSwapAvailableBytes,
    nodeSystemContainerSwapUsageBytes,
    nodeSystemContainerAcceleratorMemoryTotal,
    nodeSystemContainerAcceleratorMemoryUsed,
    nodeSystemContainerAcceleratorDutyCycle,
    podCPUUsageNanoCores,
    podCPUUsageCoreNanoSeconds,
    podMemoryAvailableBytes,
    podMemoryUsageBytes,
    podMemoryWorkingSetBytes,
    podMemoryRSSBytes,
    podMemoryPageFaults,
    podMemoryMajorPageFaults,
    podSwapAvailableBytes,
    podSwapUsageBytes,
    podInterfaceRxBytes,
    podInterfaceRxErrors,
    podInterfaceTxBytes,
    podInterfaceTxErrors,
    podEphemeralStorageUsedBytes,
    podEphemeralStorageAvailableBytes,
    podEphemeralStorageInodesFree,
    podEphemeralStorageInodes,
    podEphemeralStorageInodesUsed,
    podVolumeUsedBytes,
    podVolumeAvailableBytes,
    podVolumeInodesFree,
    podVolumeInodes,
    podVolumeInodesUsed,
    podVolumeHealthStatus,
    podProcessCount,
    containerRootFsUsedBytes,
    containerRootFsAvailableBytes,
    containerRootFsInodesFree,
    containerRootFsInodes,
    containerRootFsInodesUsed,
    containerLogsUsedBytes,
    containerLogsAvailableBytes,
    containerLogsInodesFree,
    containerLogsInodes,
    containerLogsInodesUsed,
    containerCPUUsageNanoCores,
    containerCPUUsageCoreNanoSeconds,
    containerMemoryAvailableBytes,
    containerMemoryUsageBytes,
    containerMemoryWorkingSetBytes,
    containerMemoryRSSBytes,
    containerMemoryPageFaults,
    containerMemoryMajorPageFaults,
    containerSwapAvailableBytes,
    containerSwapUsageBytes,
    containerAcceleratorMemoryTotal,
    containerAcceleratorMemoryUsed,
    containerAcceleratorDutyCycle]"

subsection \<open>\<^verbatim>\<open>pushMetrics\<close> and \<^verbatim>\<open>parse\<close>\<close>

definition pushMetrics :: "Desc \<Rightarrow> uint64 option \<Rightarrow> string list \<Rightarrow> step list" where
  "pushMetrics metric v lvs =
     (case v of
        None \<Rightarrow> []
      | Some x \<Rightarrow> [MustNewConstMetric metric GaugeValue (float64_of_uint64 x) lvs])"

text \<open>
  \<^verbatim>\<open>json.Unmarshal\<close> is the standard library's; \<^verbatim>\<open>parse\<close> takes it as a parameter, a function
  from the body to the decoded summary, \<open>None\<close> when it returns an error.
\<close>

datatype error = UnmarshalError

definition parse :: "(bytes \<Rightarrow> Summary option) \<Rightarrow> bytes \<Rightarrow> error + Summary" where
  "parse unmarshal body =
     (case unmarshal body of None \<Rightarrow> Inl UnmarshalError | Some summary \<Rightarrow> Inr summary)"

subsection \<open>\<^verbatim>\<open>Collect\<close>: the traversal of a decoded summary (lines 851 to 1070)\<close>

text \<open>
  Each of the following functions is one block of \<^verbatim>\<open>Collect\<close>, and returns the steps of
  the block, in the order of its statements.
\<close>

definition systemContainerMetrics :: "string \<Rightarrow> ContainerStats \<Rightarrow> step list" where
  \<comment> \<open>the body of the loop over \<^verbatim>\<open>node.SystemContainers\<close>, lines 853 to 895\<close>
  "systemContainerMetrics nodeName nodeSystemContainer =
     (case Rootfs nodeSystemContainer of None \<Rightarrow> [] | Some fs \<Rightarrow>
        pushMetrics nodeSystemContainerRootFsUsedBytes (UsedBytes fs) [nodeName, Container_Name nodeSystemContainer] @
        pushMetrics nodeSystemContainerRootFsAvailableBytes (CapacityBytes fs) [nodeName, Container_Name nodeSystemContainer] @
        pushMetrics nodeSystemContainerRootFsInodes (Inodes fs) [nodeName, Container_Name nodeSystemContainer] @
        pushMetrics nodeSystemContainerRootFsInodesFree (InodesFree fs) [nodeName, Container_Name nodeSystemContainer] @
        pushMetrics nodeSystemContainerRootFsInodesUsed (InodesUsed fs) [nodeName, Container_Name nodeSystemContainer]) @
     (case Logs nodeSystemContainer of None \<Rightarrow> [] | Some fs \<Rightarrow>
        pushMetrics nodeSystemContainerLogsUsedBytes (UsedBytes fs) [nodeName, Container_Name nodeSystemContainer] @
        pushMetrics nodeSystemContainerLogsAvailableBytes (CapacityBytes fs) [nodeName, Container_Name nodeSystemContainer] @
        pushMetrics nodeSystemContainerLogsInodes (Inodes fs) [nodeName, Container_Name nodeSystemContainer] @
        pushMetrics nodeSystemContainerLogsInodesFree (InodesFree fs) [nodeName, Container_Name nodeSystemContainer] @
        pushMetrics nodeSystemContainerLogsInodesUsed (InodesUsed fs) [nodeName, Container_Name nodeSystemContainer]) @
     (case Container_CPU nodeSystemContainer of None \<Rightarrow> [] | Some cpu \<Rightarrow>
        pushMetrics nodeSystemContainerCPUUsageNanoCores (UsageNanoCores cpu) [nodeName, Container_Name nodeSystemContainer] @
        pushMetrics nodeSystemContainerCPUUsageCoreNanoSeconds (UsageCoreNanoSeconds cpu) [nodeName, Container_Name nodeSystemContainer]) @
     (case Container_Memory nodeSystemContainer of None \<Rightarrow> [] | Some mem \<Rightarrow>
        pushMetrics nodeSystemContainerMemoryAvailableBytes (AvailableBytes mem) [nodeName, Container_Name nodeSystemContainer] @
        pushMetrics nodeSystemContainerMemoryUsageBytes (UsageBytes mem) [nodeName, Container_Name nodeSystemContainer] @
        pushMetrics nodeSystemContainerMemoryWorkingSetBytes (WorkingSetBytes mem) [nodeName, Container_Name nodeSystemContainer] @
        pushMetrics nodeSystemContainerMemoryRSSBytes (RSSBytes mem) [nodeName, Container_Name nodeSystemContainer] @
        pushMetrics nodeSystemContainerMemoryPageFaults (PageFaults mem) [nodeName, Container_Name nodeSystemContainer] @
        pushMetrics nodeSystemContainerMemoryMajorPageFaults (MajorPageFaults mem) [nodeName, Container_Name nodeSystemContainer]) @
     (case Container_Swap nodeSystemContainer of None \<Rightarrow> [] | Some swap \<Rightarrow>
        pushMetrics nodeSystemContainerSwapAvailableBytes (SwapAvailableBytes swap) [nodeName, Container_Name nodeSystemContainer] @
        pushMetrics nodeSystemContainerSwapUsageBytes (SwapUsageBytes swap) [nodeName, Container_Name nodeSystemContainer]) @
     concat (map (\<lambda>accelerator.
        pushMetrics nodeSystemContainerAcceleratorMemoryUsed (Some (MemoryUsed accelerator))
          [nodeName, Container_Name nodeSystemContainer, ID accelerator, Model accelerator, Make accelerator] @
        pushMetrics nodeSystemContainerAcceleratorMemoryTotal (Some (MemoryTotal accelerator))
          [nodeName, Container_Name nodeSystemContainer, ID accelerator, Model accelerator, Make accelerator] @
        pushMetrics nodeSystemContainerAcceleratorDutyCycle (Some (DutyCycle accelerator))
          [nodeName, Container_Name nodeSystemContainer, ID accelerator, Model accelerator, Make accelerator])
       (Accelerators nodeSystemContainer))"

definition nodeFsMetrics :: "string \<Rightarrow> FsStats option \<Rightarrow> step list" where
  \<comment> \<open>lines 897 to 904\<close>
  "nodeFsMetrics nodeName nodeFs =
     (case nodeFs of None \<Rightarrow> [] | Some fs \<Rightarrow>
        pushMetrics nodeFsUsedBytes (UsedBytes fs) [nodeName] @
        pushMetrics nodeFsAvailableBytes (CapacityBytes fs) [nodeName] @
        pushMetrics nodeFsInodes (Inodes fs) [nodeName] @
        pushMetrics nodeFsInodesFree (InodesFree fs) [nodeName] @
        pushMetrics nodeFsInodesUsed (InodesUsed fs) [nodeName])"

definition nodeRuntimeImageFsMetrics :: "string \<Rightarrow> FsStats option \<Rightarrow> step list" where
  \<comment> \<open>lines 906 to 913, after the read of \<^verbatim>\<open>node.Runtime.ImageFs\<close>\<close>
  "nodeRuntimeImageFsMetrics nodeName nodeRuntimeImageFs =
     (case nodeRuntimeImageFs of None \<Rightarrow> [] | Some fs \<Rightarrow>
        pushMetrics nodeRuntimeImageFsUsedBytes (UsedBytes fs) [nodeName] @
        pushMetrics nodeRuntimeImageFsAvailableBytes (CapacityBytes fs) [nodeName] @
        pushMetrics nodeRuntimeImageFsInodes (Inodes fs) [nodeName] @
        pushMetrics nodeRuntimeImageFsInodesFree (InodesFree fs) [nodeName] @
        pushMetrics nodeRuntimeImageFsInodesUsed (InodesUsed fs) [nodeName])"

definition nodeRuntimeContainerFsMetrics :: "string \<Rightarrow> FsStats option \<Rightarrow> step list" where
  \<comment> \<open>lines 915 to 922\<close>
  "nodeRuntimeContainerFsMetrics nodeName nodeRuntimeContainerFs =
     (case nodeRuntimeContainerFs of None \<Rightarrow> [] | Some fs \<Rightarrow>
        pushMetrics nodeRuntimeContainerFsUsedBytes (UsedBytes fs) [nodeName] @
        pushMetrics nodeRuntimeContainerFsAvailableBytes (CapacityBytes fs) [nodeName] @
        pushMetrics nodeRuntimeContainerFsInodes (Inodes fs) [nodeName] @
        pushMetrics nodeRuntimeContainerFsInodesFree (InodesFree fs) [nodeName] @
        pushMetrics nodeRuntimeContainerFsInodesUsed (InodesUsed fs) [nodeName])"

definition nodeCPUMetrics :: "string \<Rightarrow> CPUStats option \<Rightarrow> step list" where
  \<comment> \<open>lines 924 to 927\<close>
  "nodeCPUMetrics nodeName c =
     (case c of None \<Rightarrow> [] | Some cpu \<Rightarrow>
        pushMetrics nodeCPUUsageNanoCores (UsageNanoCores cpu) [nodeName] @
        pushMetrics nodeCPUUsageCoreNanoSeconds (UsageCoreNanoSeconds cpu) [nodeName])"

definition nodeMemoryMetrics :: "string \<Rightarrow> MemoryStats option \<Rightarrow> step list" where
  \<comment> \<open>lines 929 to 935: five sends, none for \<^verbatim>\<open>MajorPageFaults\<close>\<close>
  "nodeMemoryMetrics nodeName m =
     (case m of None \<Rightarrow> [] | Some mem \<Rightarrow>
        pushMetrics nodeMemoryAvailableBytes (AvailableBytes mem) [nodeName] @
        pushMetrics nodeMemoryUsageBytes (UsageBytes mem) [nodeName] @
        pushMetrics nodeMemoryWorkingSetBytes (WorkingSetBytes mem) [nodeName] @
        pushMetrics nodeMemoryRSSBytes (RSSBytes mem) [nodeName] @
        pushMetrics nodeMemoryPageFaults (PageFaults mem) [nodeName])"

definition nodeSwapMetrics :: "string \<Rightarrow> SwapStats option \<Rightarrow> step list" where
  \<comment> \<open>lines 937 to 940\<close>
  "nodeSwapMetrics nodeName sw =
     (case sw of None \<Rightarrow> [] | Some swap \<Rightarrow>
        pushMetrics nodeSwapAvailableBytes (SwapAvailableBytes swap) [nodeName] @
        pushMetrics nodeSwapUsageBytes (SwapUsageBytes swap) [nodeName])"

definition nodeRlimitMetrics :: "string \<Rightarrow> RlimitStats option \<Rightarrow> step list" where
  \<comment> \<open>lines 942 to 959: the two \<^verbatim>\<open>int64\<close> leaves, sent without \<^verbatim>\<open>pushMetrics\<close>\<close>
  "nodeRlimitMetrics nodeName rl =
     (case rl of None \<Rightarrow> [] | Some rlimit \<Rightarrow>
        (case MaxPID rlimit of None \<Rightarrow> [] | Some n \<Rightarrow>
           [MustNewConstMetric nodeRLimitMaxPID GaugeValue (float64_of_int64 n) [nodeName]]) @
        (case NumOfRunningProcesses rlimit of None \<Rightarrow> [] | Some n \<Rightarrow>
           [MustNewConstMetric nodeRLimitNumOfRunningProcess GaugeValue (float64_of_int64 n) [nodeName]]))"

definition nodeNetworkMetrics :: "string \<Rightarrow> NetworkStats option \<Rightarrow> step list" where
  \<comment> \<open>lines 961 to 969\<close>
  "nodeNetworkMetrics nodeName nw =
     (case nw of None \<Rightarrow> [] | Some network \<Rightarrow>
        concat (map (\<lambda>interfaceStats.
           pushMetrics nodeInterfaceRxBytes (RxBytes interfaceStats) [nodeName, Interface_Name interfaceStats] @
           pushMetrics nodeInterfaceRxErrors (RxErrors interfaceStats) [nodeName, Interface_Name interfaceStats] @
           pushMetrics nodeInterfaceTxBytes (TxBytes interfaceStats) [nodeName, Interface_Name interfaceStats] @
           pushMetrics nodeInterfaceTxErrors (TxErrors interfaceStats) [nodeName, Interface_Name interfaceStats])
          (Interfaces network)))"

definition podVolumeMetrics :: "string \<Rightarrow> string \<Rightarrow> string \<Rightarrow> VolumeStats \<Rightarrow> step list" where
  \<comment> \<open>the body of the loop over \<^verbatim>\<open>pod.VolumeStats\<close>, lines 1004 to 1018\<close>
  "podVolumeMetrics nodeName namespace podName podVolume =
     pushMetrics podVolumeUsedBytes (UsedBytes (Volume_FsStats podVolume)) [nodeName, namespace, podName, Volume_Name podVolume] @
     pushMetrics podVolumeAvailableBytes (CapacityBytes (Volume_FsStats podVolume)) [nodeName, namespace, podName, Volume_Name podVolume] @
     pushMetrics podVolumeInodes (Inodes (Volume_FsStats podVolume)) [nodeName, namespace, podName, Volume_Name podVolume] @
     pushMetrics podVolumeInodesFree (InodesFree (Volume_FsStats podVolume)) [nodeName, namespace, podName, Volume_Name podVolume] @
     pushMetrics podVolumeInodesUsed (InodesUsed (Volume_FsStats podVolume)) [nodeName, namespace, podName, Volume_Name podVolume] @
     (case Volume_HealthStats podVolume of None \<Rightarrow> [] | Some health \<Rightarrow>
        (let healthStatus = (if Abnormal health then 1 else 0)
         in pushMetrics podVolumeHealthStatus (Some healthStatus) [nodeName, namespace, podName, Volume_Name podVolume]))"

definition containerMetrics :: "string \<Rightarrow> string \<Rightarrow> string \<Rightarrow> ContainerStats \<Rightarrow> step list" where
  \<comment> \<open>the body of the loop over \<^verbatim>\<open>pod.Containers\<close>, lines 1029 to 1069; the accelerator sends
      pass \<^verbatim>\<open>podName\<close> before \<^verbatim>\<open>namespace\<close>, as lines 1065 to 1067 do\<close>
  "containerMetrics nodeName namespace podName container =
     (case Rootfs container of None \<Rightarrow> [] | Some fs \<Rightarrow>
        pushMetrics containerRootFsUsedBytes (UsedBytes fs) [nodeName, namespace, podName, Container_Name container] @
        pushMetrics containerRootFsAvailableBytes (CapacityBytes fs) [nodeName, namespace, podName, Container_Name container] @
        pushMetrics containerRootFsInodes (Inodes fs) [nodeName, namespace, podName, Container_Name container] @
        pushMetrics containerRootFsInodesFree (InodesFree fs) [nodeName, namespace, podName, Container_Name container] @
        pushMetrics containerRootFsInodesUsed (InodesUsed fs) [nodeName, namespace, podName, Container_Name container]) @
     (case Logs container of None \<Rightarrow> [] | Some fs \<Rightarrow>
        pushMetrics containerLogsUsedBytes (UsedBytes fs) [nodeName, namespace, podName, Container_Name container] @
        pushMetrics containerLogsAvailableBytes (CapacityBytes fs) [nodeName, namespace, podName, Container_Name container] @
        pushMetrics containerLogsInodes (Inodes fs) [nodeName, namespace, podName, Container_Name container] @
        pushMetrics containerLogsInodesFree (InodesFree fs) [nodeName, namespace, podName, Container_Name container] @
        pushMetrics containerLogsInodesUsed (InodesUsed fs) [nodeName, namespace, podName, Container_Name container]) @
     (case Container_CPU container of None \<Rightarrow> [] | Some cpu \<Rightarrow>
        pushMetrics containerCPUUsageNanoCores (UsageNanoCores cpu) [nodeName, namespace, podName, Container_Name container] @
        pushMetrics containerCPUUsageCoreNanoSeconds (UsageCoreNanoSeconds cpu) [nodeName, namespace, podName, Container_Name container]) @
     (case Container_Memory container of None \<Rightarrow> [] | Some mem \<Rightarrow>
        pushMetrics containerMemoryAvailableBytes (AvailableBytes mem) [nodeName, namespace, podName, Container_Name container] @
        pushMetrics containerMemoryUsageBytes (UsageBytes mem) [nodeName, namespace, podName, Container_Name container] @
        pushMetrics containerMemoryWorkingSetBytes (WorkingSetBytes mem) [nodeName, namespace, podName, Container_Name container] @
        pushMetrics containerMemoryRSSBytes (RSSBytes mem) [nodeName, namespace, podName, Container_Name container] @
        pushMetrics containerMemoryPageFaults (PageFaults mem) [nodeName, namespace, podName, Container_Name container]) @
     (case Container_Swap container of None \<Rightarrow> [] | Some swap \<Rightarrow>
        pushMetrics containerSwapAvailableBytes (SwapAvailableBytes swap) [nodeName, namespace, podName, Container_Name container] @
        pushMetrics containerSwapUsageBytes (SwapUsageBytes swap) [nodeName, namespace, podName, Container_Name container]) @
     concat (map (\<lambda>accelerator.
        pushMetrics containerAcceleratorMemoryUsed (Some (MemoryUsed accelerator))
          [nodeName, podName, namespace, Container_Name container, ID accelerator, Model accelerator, Make accelerator] @
        pushMetrics containerAcceleratorMemoryTotal (Some (MemoryTotal accelerator))
          [nodeName, podName, namespace, Container_Name container, ID accelerator, Model accelerator, Make accelerator] @
        pushMetrics containerAcceleratorDutyCycle (Some (DutyCycle accelerator))
          [nodeName, podName, namespace, Container_Name container, ID accelerator, Model accelerator, Make accelerator])
       (Accelerators container))"

definition podMetrics :: "string \<Rightarrow> PodStats \<Rightarrow> step list" where
  \<comment> \<open>the body of the loop over \<^verbatim>\<open>summary.Pods\<close>, lines 971 to 1070\<close>
  "podMetrics nodeName pod =
     (let podName = PodRef_Name (PodRef pod); namespace = PodRef_Namespace (PodRef pod) in
      (case Pod_CPU pod of None \<Rightarrow> [] | Some cpu \<Rightarrow>
         pushMetrics podCPUUsageNanoCores (UsageNanoCores cpu) [nodeName, namespace, podName] @
         pushMetrics podCPUUsageCoreNanoSeconds (UsageCoreNanoSeconds cpu) [nodeName, namespace, podName]) @
      (case Pod_Memory pod of None \<Rightarrow> [] | Some mem \<Rightarrow>
         pushMetrics podMemoryAvailableBytes (AvailableBytes mem) [nodeName, namespace, podName] @
         pushMetrics podMemoryUsageBytes (UsageBytes mem) [nodeName, namespace, podName] @
         pushMetrics podMemoryWorkingSetBytes (WorkingSetBytes mem) [nodeName, namespace, podName] @
         pushMetrics podMemoryRSSBytes (RSSBytes mem) [nodeName, namespace, podName] @
         pushMetrics podMemoryPageFaults (PageFaults mem) [nodeName, namespace, podName]) @
      (case Pod_Swap pod of None \<Rightarrow> [] | Some swap \<Rightarrow>
         pushMetrics podSwapAvailableBytes (SwapAvailableBytes swap) [nodeName, namespace, podName] @
         pushMetrics podSwapUsageBytes (SwapUsageBytes swap) [nodeName, namespace, podName]) @
      (case EphemeralStorage pod of None \<Rightarrow> [] | Some fs \<Rightarrow>
         pushMetrics podEphemeralStorageUsedBytes (UsedBytes fs) [nodeName, namespace, podName] @
         pushMetrics podEphemeralStorageAvailableBytes (CapacityBytes fs) [nodeName, namespace, podName] @
         pushMetrics podEphemeralStorageInodes (Inodes fs) [nodeName, namespace, podName] @
         pushMetrics podEphemeralStorageInodesFree (InodesFree fs) [nodeName, namespace, podName] @
         pushMetrics podEphemeralStorageInodesUsed (InodesUsed fs) [nodeName, namespace, podName]) @
      (case Pod_ProcessStats pod of None \<Rightarrow> [] | Some ps \<Rightarrow>
         pushMetrics podProcessCount (ProcessCount ps) [nodeName, namespace, podName]) @
      concat (map (podVolumeMetrics nodeName namespace podName) (Pod_VolumeStats pod)) @
      (case Pod_Network pod of None \<Rightarrow> [] | Some network \<Rightarrow>
         concat (map (\<lambda>interfaceStats.
            pushMetrics podInterfaceRxBytes (RxBytes interfaceStats) [nodeName, namespace, podName, Interface_Name interfaceStats] @
            pushMetrics podInterfaceRxErrors (RxErrors interfaceStats) [nodeName, namespace, podName, Interface_Name interfaceStats] @
            pushMetrics podInterfaceTxBytes (TxBytes interfaceStats) [nodeName, namespace, podName, Interface_Name interfaceStats] @
            pushMetrics podInterfaceTxErrors (TxErrors interfaceStats) [nodeName, namespace, podName, Interface_Name interfaceStats])
           (Interfaces network))) @
      concat (map (containerMetrics nodeName namespace podName) (Containers pod)))"

text \<open>
  The whole traversal. \<^verbatim>\<open>node.Runtime\<close> is a pointer (\<^verbatim>\<open>Runtime *RuntimeStats\<close>, with
  \<^verbatim>\<open>json:"runtime,omitempty"\<close>), and line 906 reads \<^verbatim>\<open>node.Runtime.ImageFs\<close> without the \<^verbatim>\<open>nil\<close>
  test that guards every other group: on a summary without the runtime group the goroutine
  panics there, after the sends of the system containers and of the node file system. That
  read is the step \<open>None\<close> of \<open>summarySteps\<close>.
\<close>

definition summarySteps :: "Summary \<Rightarrow> step list" where
  "summarySteps summary =
     (let node = Node summary;
          nodeName = NodeName node
      in concat (map (systemContainerMetrics nodeName) (SystemContainers node)) @
         nodeFsMetrics nodeName (Fs node) @
         (case Runtime node of
            None \<Rightarrow> [None]
          | Some runtime \<Rightarrow>
              nodeRuntimeImageFsMetrics nodeName (ImageFs runtime) @
              nodeRuntimeContainerFsMetrics nodeName (ContainerFs runtime) @
              nodeCPUMetrics nodeName (Node_CPU node) @
              nodeMemoryMetrics nodeName (Node_Memory node) @
              nodeSwapMetrics nodeName (Node_Swap node) @
              nodeRlimitMetrics nodeName (Rlimit node) @
              nodeNetworkMetrics nodeName (Node_Network node) @
              concat (map (podMetrics nodeName) (Pods summary))))"

definition collectSummary :: "Summary \<Rightarrow> Metric list \<times> Outcome" where
  "collectSummary summary = runSteps (summarySteps summary)"

subsection \<open>\<^verbatim>\<open>Collect\<close>: one pull\<close>

text \<open>
  What the outside world answers during one pull: whether \<^verbatim>\<open>http.NewRequest\<close> and
  \<^verbatim>\<open>os.ReadFile\<close> fail, and what \<^verbatim>\<open>client.Do\<close> returns, \<open>None\<close> for an error (a timeout is
  one) and otherwise the response with its status code and the result of \<^verbatim>\<open>io.ReadAll\<close> on
  its body, \<open>None\<close> again for an error. \<^verbatim>\<open>logger.Fatal\<close> ends the process: the outcome
  \<open>Exited\<close>. A pull sends the metrics of its steps and ends as they do.
\<close>

record Response =
  StatusCode :: int
  ReadAll :: "bytes option"

record World =
  NewRequest_err :: bool
  ReadFile_err :: bool
  Do :: "Response option"

record Run =
  scraper :: Scraper
  sent :: "Metric list"
  outcome :: Outcome

definition StatusOK :: int where
  "StatusOK = 200"

definition Collect :: "(bytes \<Rightarrow> Summary option) \<Rightarrow> World \<Rightarrow> Scraper \<Rightarrow> Run" where
  "Collect unmarshal w s =
     (if NewRequest_err w then \<lparr>scraper = s, sent = [], outcome = Returned\<rparr>
      else if ReadFile_err w then \<lparr>scraper = s, sent = [], outcome = Exited\<rparr>
      else case Do w of
        None \<Rightarrow>
          (let s' = s\<lparr>errCnt := float64_inc (errCnt s)\<rparr>
           in case runSteps [MustNewConstMetric errors CounterValue (errCnt s') [''request error'']] of
                (ms, out) \<Rightarrow> \<lparr>scraper = s', sent = ms, outcome = out\<rparr>)
      | Some resp \<Rightarrow>
          if StatusCode resp \<noteq> StatusOK then
            (let s' = s\<lparr>errCnt := float64_inc (errCnt s)\<rparr>
             in case runSteps [MustNewConstMetric errors CounterValue (errCnt s') [''status error'']] of
                  (ms, out) \<Rightarrow> \<lparr>scraper = s', sent = ms, outcome = out\<rparr>)
          else case ReadAll resp of
            None \<Rightarrow>
              (let s' = s\<lparr>errCnt := float64_inc (errCnt s)\<rparr>
               in case runSteps [MustNewConstMetric errors CounterValue (errCnt s') [''read body error'']] of
                    (ms, out) \<Rightarrow> \<lparr>scraper = s', sent = ms, outcome = out\<rparr>)
          | Some body \<Rightarrow>
              (case parse unmarshal body of
                 Inl err \<Rightarrow>
                   (case runSteps [MustNewConstMetric errors CounterValue (errCnt s) [''parse body error'']] of
                      (ms, out) \<Rightarrow> \<lparr>scraper = s, sent = ms, outcome = out\<rparr>)
               | Inr summary \<Rightarrow>
                   (case collectSummary summary of
                      (ms, out) \<Rightarrow> \<lparr>scraper = s, sent = ms, outcome = out\<rparr>)))"

text \<open>A sequence of pulls: the scraper of one is the scraper of the next.\<close>

fun CollectAll :: "(bytes \<Rightarrow> Summary option) \<Rightarrow> World list \<Rightarrow> Scraper \<Rightarrow> Run list" where
  "CollectAll unmarshal [] s = []"
| "CollectAll unmarshal (w # ws) s =
     (let r = Collect unmarshal w s in r # CollectAll unmarshal ws (scraper r))"

subsection \<open>Example inputs\<close>

text \<open>
  Two decoders, one that rejects every body and one that decodes every body to a given
  summary; a world in which the request is built, the token is read and the kubelet
  answers; and the summaries with every optional group absent, from which the examples
  below are built by record update.
\<close>

definition undecodable :: "bytes \<Rightarrow> Summary option" where
  "undecodable body = None"

definition decodesTo :: "Summary \<Rightarrow> bytes \<Rightarrow> Summary option" where
  "decodesTo summary body = Some summary"

definition respond :: "int \<Rightarrow> bytes option \<Rightarrow> World" where
  "respond code body =
     \<lparr>NewRequest_err = False, ReadFile_err = False,
      Do = Some \<lparr>StatusCode = code, ReadAll = body\<rparr>\<rparr>"

definition noFs :: FsStats where
  "noFs = \<lparr>CapacityBytes = None, UsedBytes = None, InodesFree = None, Inodes = None, InodesUsed = None\<rparr>"

definition noCPU :: CPUStats where
  "noCPU = \<lparr>UsageNanoCores = None, UsageCoreNanoSeconds = None\<rparr>"

definition noMemory :: MemoryStats where
  "noMemory = \<lparr>AvailableBytes = None, UsageBytes = None, WorkingSetBytes = None, RSSBytes = None,
               PageFaults = None, MajorPageFaults = None\<rparr>"

definition noRuntime :: RuntimeStats where
  "noRuntime = \<lparr>ImageFs = None, ContainerFs = None\<rparr>"

definition bareNode :: "string \<Rightarrow> NodeStats" where
  "bareNode n = \<lparr>NodeName = n, SystemContainers = [], Node_CPU = None, Node_Memory = None,
                 Node_Network = None, Fs = None, Runtime = None, Rlimit = None, Node_Swap = None\<rparr>"

definition bareContainer :: "string \<Rightarrow> ContainerStats" where
  "bareContainer n = \<lparr>Container_Name = n, Container_CPU = None, Container_Memory = None,
                      Accelerators = [], Rootfs = None, Logs = None, Container_Swap = None\<rparr>"

definition barePod :: "string \<Rightarrow> string \<Rightarrow> PodStats" where
  "barePod n ns = \<lparr>PodRef = \<lparr>PodRef_Name = n, PodRef_Namespace = ns\<rparr>, Containers = [],
                   Pod_CPU = None, Pod_Memory = None, Pod_Network = None, Pod_VolumeStats = [],
                   EphemeralStorage = None, Pod_ProcessStats = None, Pod_Swap = None\<rparr>"

definition scraper0 :: Scraper where
  "scraper0 = NewScraper ''10.0.0.1'' ''/var/run/token'' 5"

text \<open>
  The summary of the repository's test (\<^verbatim>\<open>scraper_test.go\<close>, \<^verbatim>\<open>testdata/example.yaml\<close>): a node name,
  and one pod with one container whose root file system has a capacity and a usage of 0.
\<close>

definition scenarioA :: Summary where
  "scenarioA =
     \<lparr>Node = bareNode ''ip-172-20-125-125.ec2.internal'',
      Pods = [(barePod ''aws-xray-daemon-bpmqx'' ''kube-system'')
                \<lparr>Containers := [(bareContainer ''aws-xray-daemon'')
                   \<lparr>Rootfs := Some (noFs\<lparr>CapacityBytes := Some 107361579008, UsedBytes := Some 0\<rparr>)\<rparr>]\<rparr>]\<rparr>"

text \<open>
  A pod with one container that holds one accelerator; a summary whose memory groups carry
  only \<^verbatim>\<open>majorPageFaults\<close>, at the scope of the node, of a system container, of a pod and of a
  pod's container; and a node whose memory group carries \<^verbatim>\<open>pageFaults\<close> and \<^verbatim>\<open>majorPageFaults\<close>,
  both 0.
\<close>

definition gpuSummary :: Summary where
  "gpuSummary =
     \<lparr>Node = (bareNode ''node-1'')\<lparr>Runtime := Some noRuntime\<rparr>,
      Pods = [(barePod ''trainer-0'' ''ml'')
                \<lparr>Containers := [(bareContainer ''cuda'')
                   \<lparr>Accelerators := [\<lparr>Make = ''nvidia'', Model = ''a100'', ID = ''GPU-0'',
                                      MemoryTotal = 40, MemoryUsed = 10, DutyCycle = 50\<rparr>]\<rparr>]\<rparr>]\<rparr>"

definition majorFaultsSummary :: Summary where
  "majorFaultsSummary =
     \<lparr>Node = (bareNode ''node-1'')
        \<lparr>Runtime := Some noRuntime,
         Node_Memory := Some (noMemory\<lparr>MajorPageFaults := Some 7\<rparr>),
         SystemContainers := [(bareContainer ''kubelet'')
            \<lparr>Container_Memory := Some (noMemory\<lparr>MajorPageFaults := Some 7\<rparr>)\<rparr>]\<rparr>,
      Pods = [(barePod ''web-0'' ''default'')
                \<lparr>Pod_Memory := Some (noMemory\<lparr>MajorPageFaults := Some 7\<rparr>),
                 Containers := [(bareContainer ''nginx'')
                   \<lparr>Container_Memory := Some (noMemory\<lparr>MajorPageFaults := Some 7\<rparr>)\<rparr>]\<rparr>]\<rparr>"

definition zeroFaultsSummary :: Summary where
  "zeroFaultsSummary =
     \<lparr>Node = (bareNode ''node-1'')
        \<lparr>Runtime := Some noRuntime,
         Node_Memory := Some (noMemory\<lparr>PageFaults := Some 0, MajorPageFaults := Some 0\<rparr>)\<rparr>,
      Pods = []\<rparr>"

text \<open>
  A summary with one observation in each of three groups and two pods, and a summary with
  a single node CPU leaf.
\<close>

definition orderSummary :: Summary where
  "orderSummary =
     \<lparr>Node = (bareNode ''node-1'')
        \<lparr>Runtime := Some noRuntime,
         Fs := Some (noFs\<lparr>UsedBytes := Some 7\<rparr>),
         SystemContainers := [(bareContainer ''kubelet'')
            \<lparr>Container_CPU := Some (noCPU\<lparr>UsageNanoCores := Some 10\<rparr>)\<rparr>]\<rparr>,
      Pods = [(barePod ''web-0'' ''default'')\<lparr>Pod_CPU := Some (noCPU\<lparr>UsageNanoCores := Some 40\<rparr>)\<rparr>,
              (barePod ''web-1'' ''default'')\<lparr>Pod_CPU := Some (noCPU\<lparr>UsageNanoCores := Some 50\<rparr>)\<rparr>]\<rparr>"

definition cpuSummary :: Summary where
  "cpuSummary =
     \<lparr>Node = (bareNode ''node-1'')
        \<lparr>Runtime := Some noRuntime, Node_CPU := Some (noCPU\<lparr>UsageNanoCores := Some 7\<rparr>)\<rparr>,
      Pods = []\<rparr>"

subsection \<open>Notions used in the statements\<close>

text \<open>
  A metric fits its descriptor when it has as many label values as the descriptor has
  variable labels. The stage of a descriptor is the position of its group in the traversal
  of \<^verbatim>\<open>Collect\<close>, read off the subsystem part of its name; 10 is the stage of a descriptor
  outside the data groups, such as the error counter's.
\<close>

definition labelsFit :: "Metric \<Rightarrow> bool" where
  "labelsFit m = (length (labelValues m) = length (variableLabels (desc m)))"

definition stage :: "Desc \<Rightarrow> nat" where
  "stage d =
     (let n = fqName d; starts = (\<lambda>p. take (length p) n = p) in
      if starts ''kubelet_summary_node_system_container_'' then 0
      else if starts ''kubelet_summary_node_fs_'' then 1
      else if starts ''kubelet_summary_node_runtime_image_fs_'' then 2
      else if starts ''kubelet_summary_node_runtime_container_fs_'' then 3
      else if starts ''kubelet_summary_node_cpu_'' then 4
      else if starts ''kubelet_summary_node_memory_'' then 5
      else if starts ''kubelet_summary_node_swap_'' then 6
      else if starts ''kubelet_summary_node_rlimit_'' then 7
      else if starts ''kubelet_summary_node_interface_'' then 8
      else if starts ''kubelet_summary_pod_'' \<or> starts ''kubelet_summary_container_'' then 9
      else 10)"

text \<open>
  A step delivers a property when it sends a metric, without a panic, and the metric has
  the property.
\<close>

definition delivers :: "(Metric \<Rightarrow> bool) \<Rightarrow> step \<Rightarrow> bool" where
  "delivers P a = (case a of None \<Rightarrow> False | Some m \<Rightarrow> P m)"



















section \<open>Properties\<close>

lemmas desc_defs = containerRootFsUsedBytes_def containerRootFsAvailableBytes_def
  containerRootFsInodesFree_def containerRootFsInodes_def containerRootFsInodesUsed_def
  containerLogsUsedBytes_def containerLogsAvailableBytes_def containerLogsInodesFree_def
  containerLogsInodes_def containerLogsInodesUsed_def containerCPUUsageNanoCores_def
  containerCPUUsageCoreNanoSeconds_def containerMemoryAvailableBytes_def
  containerMemoryUsageBytes_def containerMemoryWorkingSetBytes_def containerMemoryRSSBytes_def
  containerMemoryPageFaults_def containerMemoryMajorPageFaults_def
  containerSwapAvailableBytes_def containerSwapUsageBytes_def
  containerAcceleratorMemoryTotal_def containerAcceleratorMemoryUsed_def
  containerAcceleratorDutyCycle_def podCPUUsageNanoCores_def podCPUUsageCoreNanoSeconds_def
  podMemoryAvailableBytes_def podMemoryUsageBytes_def podMemoryWorkingSetBytes_def
  podMemoryRSSBytes_def podMemoryPageFaults_def podMemoryMajorPageFaults_def
  podSwapAvailableBytes_def podSwapUsageBytes_def podEphemeralStorageUsedBytes_def
  podEphemeralStorageAvailableBytes_def podEphemeralStorageInodesFree_def
  podEphemeralStorageInodes_def podEphemeralStorageInodesUsed_def podVolumeUsedBytes_def
  podVolumeAvailableBytes_def podVolumeInodesFree_def podVolumeInodes_def
  podVolumeInodesUsed_def podVolumeHealthStatus_def podInterfaceRxBytes_def
  podInterfaceRxErrors_def podInterfaceTxBytes_def podInterfaceTxErrors_def podProcessCount_def
  nodeFsUsedBytes_def nodeFsAvailableBytes_def nodeFsInodesFree_def nodeFsInodes_def
  nodeFsInodesUsed_def nodeRuntimeImageFsUsedBytes_def nodeRuntimeImageFsAvailableBytes_def
  nodeRuntimeImageFsInodesFree_def nodeRuntimeImageFsInodes_def nodeRuntimeImageFsInodesUsed_def
  nodeRuntimeContainerFsUsedBytes_def nodeRuntimeContainerFsAvailableBytes_def
  nodeRuntimeContainerFsInodesFree_def nodeRuntimeContainerFsInodes_def
  nodeRuntimeContainerFsInodesUsed_def nodeCPUUsageNanoCores_def nodeCPUUsageCoreNanoSeconds_def
  nodeMemoryAvailableBytes_def nodeMemoryUsageBytes_def nodeMemoryWorkingSetBytes_def
  nodeMemoryRSSBytes_def nodeMemoryPageFaults_def nodeMemoryMajorPageFaults_def
  nodeSwapAvailableBytes_def nodeSwapUsageBytes_def nodeRLimitMaxPID_def
  nodeRLimitNumOfRunningProcess_def nodeInterfaceRxBytes_def nodeInterfaceRxErrors_def
  nodeInterfaceTxBytes_def nodeInterfaceTxErrors_def nodeSystemContainerRootFsUsedBytes_def
  nodeSystemContainerRootFsAvailableBytes_def nodeSystemContainerRootFsInodesFree_def
  nodeSystemContainerRootFsInodes_def nodeSystemContainerRootFsInodesUsed_def
  nodeSystemContainerLogsUsedBytes_def nodeSystemContainerLogsAvailableBytes_def
  nodeSystemContainerLogsInodesFree_def nodeSystemContainerLogsInodes_def
  nodeSystemContainerLogsInodesUsed_def nodeSystemContainerCPUUsageNanoCores_def
  nodeSystemContainerCPUUsageCoreNanoSeconds_def nodeSystemContainerMemoryAvailableBytes_def
  nodeSystemContainerMemoryUsageBytes_def nodeSystemContainerMemoryWorkingSetBytes_def
  nodeSystemContainerMemoryRSSBytes_def nodeSystemContainerMemoryPageFaults_def
  nodeSystemContainerMemoryMajorPageFaults_def nodeSystemContainerSwapAvailableBytes_def
  nodeSystemContainerSwapUsageBytes_def nodeSystemContainerAcceleratorMemoryTotal_def
  nodeSystemContainerAcceleratorMemoryUsed_def nodeSystemContainerAcceleratorDutyCycle_def
  errors_def

lemmas traversal_defs = collectSummary_def summarySteps_def systemContainerMetrics_def nodeFsMetrics_def
  nodeRuntimeImageFsMetrics_def nodeRuntimeContainerFsMetrics_def nodeCPUMetrics_def
  nodeMemoryMetrics_def nodeSwapMetrics_def nodeRlimitMetrics_def nodeNetworkMetrics_def
  podVolumeMetrics_def containerMetrics_def podMetrics_def pushMetrics_def
  MustNewConstMetric_def

lemma variableLabels_descs:
  "variableLabels containerRootFsUsedBytes = [''node'', ''namespace'', ''pod'', ''container'']"
  "variableLabels containerRootFsAvailableBytes = [''node'', ''namespace'', ''pod'', ''container'']"
  "variableLabels containerRootFsInodesFree = [''node'', ''namespace'', ''pod'', ''container'']"
  "variableLabels containerRootFsInodes = [''node'', ''namespace'', ''pod'', ''container'']"
  "variableLabels containerRootFsInodesUsed = [''node'', ''namespace'', ''pod'', ''container'']"
  "variableLabels containerLogsUsedBytes = [''node'', ''namespace'', ''pod'', ''container'']"
  "variableLabels containerLogsAvailableBytes = [''node'', ''namespace'', ''pod'', ''container'']"
  "variableLabels containerLogsInodesFree = [''node'', ''namespace'', ''pod'', ''container'']"
  "variableLabels containerLogsInodes = [''node'', ''namespace'', ''pod'', ''container'']"
  "variableLabels containerLogsInodesUsed = [''node'', ''namespace'', ''pod'', ''container'']"
  "variableLabels containerCPUUsageNanoCores = [''node'', ''namespace'', ''pod'', ''container'']"
  "variableLabels containerCPUUsageCoreNanoSeconds = [''node'', ''namespace'', ''pod'', ''container'']"
  "variableLabels containerMemoryAvailableBytes = [''node'', ''namespace'', ''pod'', ''container'']"
  "variableLabels containerMemoryUsageBytes = [''node'', ''namespace'', ''pod'', ''container'']"
  "variableLabels containerMemoryWorkingSetBytes = [''node'', ''namespace'', ''pod'', ''container'']"
  "variableLabels containerMemoryRSSBytes = [''node'', ''namespace'', ''pod'', ''container'']"
  "variableLabels containerMemoryPageFaults = [''node'', ''namespace'', ''pod'', ''container'']"
  "variableLabels containerMemoryMajorPageFaults = [''node'', ''namespace'', ''pod'', ''container'']"
  "variableLabels containerSwapAvailableBytes = [''node'', ''namespace'', ''pod'', ''container'']"
  "variableLabels containerSwapUsageBytes = [''node'', ''namespace'', ''pod'', ''container'']"
  "variableLabels containerAcceleratorMemoryTotal = [''node'', ''namespace'', ''pod'', ''container'', ''id'', ''model'', ''make'']"
  "variableLabels containerAcceleratorMemoryUsed = [''node'', ''namespace'', ''pod'', ''container'', ''id'', ''model'', ''make'']"
  "variableLabels containerAcceleratorDutyCycle = [''node'', ''namespace'', ''pod'', ''container'', ''id'', ''model'', ''make'']"
  "variableLabels podCPUUsageNanoCores = [''node'', ''namespace'', ''pod'']"
  "variableLabels podCPUUsageCoreNanoSeconds = [''node'', ''namespace'', ''pod'']"
  "variableLabels podMemoryAvailableBytes = [''node'', ''namespace'', ''pod'']"
  "variableLabels podMemoryUsageBytes = [''node'', ''namespace'', ''pod'']"
  "variableLabels podMemoryWorkingSetBytes = [''node'', ''namespace'', ''pod'']"
  "variableLabels podMemoryRSSBytes = [''node'', ''namespace'', ''pod'']"
  "variableLabels podMemoryPageFaults = [''node'', ''namespace'', ''pod'']"
  "variableLabels podMemoryMajorPageFaults = [''node'', ''namespace'', ''pod'']"
  "variableLabels podSwapAvailableBytes = [''node'', ''namespace'', ''pod'']"
  "variableLabels podSwapUsageBytes = [''node'', ''namespace'', ''pod'']"
  "variableLabels podEphemeralStorageUsedBytes = [''node'', ''namespace'', ''pod'']"
  "variableLabels podEphemeralStorageAvailableBytes = [''node'', ''namespace'', ''pod'']"
  "variableLabels podEphemeralStorageInodesFree = [''node'', ''namespace'', ''pod'']"
  "variableLabels podEphemeralStorageInodes = [''node'', ''namespace'', ''pod'']"
  "variableLabels podEphemeralStorageInodesUsed = [''node'', ''namespace'', ''pod'']"
  "variableLabels podVolumeUsedBytes = [''node'', ''namespace'', ''pod'', ''volume_name'']"
  "variableLabels podVolumeAvailableBytes = [''node'', ''namespace'', ''pod'', ''volume_name'']"
  "variableLabels podVolumeInodesFree = [''node'', ''namespace'', ''pod'', ''volume_name'']"
  "variableLabels podVolumeInodes = [''node'', ''namespace'', ''pod'', ''volume_name'']"
  "variableLabels podVolumeInodesUsed = [''node'', ''namespace'', ''pod'', ''volume_name'']"
  "variableLabels podVolumeHealthStatus = [''node'', ''namespace'', ''pod'', ''volume_name'']"
  "variableLabels podInterfaceRxBytes = [''node'', ''namespace'', ''pod'', ''name'']"
  "variableLabels podInterfaceRxErrors = [''node'', ''namespace'', ''pod'', ''name'']"
  "variableLabels podInterfaceTxBytes = [''node'', ''namespace'', ''pod'', ''name'']"
  "variableLabels podInterfaceTxErrors = [''node'', ''namespace'', ''pod'', ''name'']"
  "variableLabels podProcessCount = [''node'', ''namespace'', ''pod'']"
  "variableLabels nodeFsUsedBytes = [''node'']"
  "variableLabels nodeFsAvailableBytes = [''node'']"
  "variableLabels nodeFsInodesFree = [''node'']"
  "variableLabels nodeFsInodes = [''node'']"
  "variableLabels nodeFsInodesUsed = [''node'']"
  "variableLabels nodeRuntimeImageFsUsedBytes = [''node'']"
  "variableLabels nodeRuntimeImageFsAvailableBytes = [''node'']"
  "variableLabels nodeRuntimeImageFsInodesFree = [''node'']"
  "variableLabels nodeRuntimeImageFsInodes = [''node'']"
  "variableLabels nodeRuntimeImageFsInodesUsed = [''node'']"
  "variableLabels nodeRuntimeContainerFsUsedBytes = [''node'']"
  "variableLabels nodeRuntimeContainerFsAvailableBytes = [''node'']"
  "variableLabels nodeRuntimeContainerFsInodesFree = [''node'']"
  "variableLabels nodeRuntimeContainerFsInodes = [''node'']"
  "variableLabels nodeRuntimeContainerFsInodesUsed = [''node'']"
  "variableLabels nodeCPUUsageNanoCores = [''node'']"
  "variableLabels nodeCPUUsageCoreNanoSeconds = [''node'']"
  "variableLabels nodeMemoryAvailableBytes = [''node'']"
  "variableLabels nodeMemoryUsageBytes = [''node'']"
  "variableLabels nodeMemoryWorkingSetBytes = [''node'']"
  "variableLabels nodeMemoryRSSBytes = [''node'']"
  "variableLabels nodeMemoryPageFaults = [''node'']"
  "variableLabels nodeMemoryMajorPageFaults = [''node'']"
  "variableLabels nodeSwapAvailableBytes = [''node'']"
  "variableLabels nodeSwapUsageBytes = [''node'']"
  "variableLabels nodeRLimitMaxPID = [''node'']"
  "variableLabels nodeRLimitNumOfRunningProcess = [''node'']"
  "variableLabels nodeInterfaceRxBytes = [''node'', ''name'']"
  "variableLabels nodeInterfaceRxErrors = [''node'', ''name'']"
  "variableLabels nodeInterfaceTxBytes = [''node'', ''name'']"
  "variableLabels nodeInterfaceTxErrors = [''node'', ''name'']"
  "variableLabels nodeSystemContainerRootFsUsedBytes = [''node'', ''container'']"
  "variableLabels nodeSystemContainerRootFsAvailableBytes = [''node'', ''container'']"
  "variableLabels nodeSystemContainerRootFsInodesFree = [''node'', ''container'']"
  "variableLabels nodeSystemContainerRootFsInodes = [''node'', ''container'']"
  "variableLabels nodeSystemContainerRootFsInodesUsed = [''node'', ''container'']"
  "variableLabels nodeSystemContainerLogsUsedBytes = [''node'', ''container'']"
  "variableLabels nodeSystemContainerLogsAvailableBytes = [''node'', ''container'']"
  "variableLabels nodeSystemContainerLogsInodesFree = [''node'', ''container'']"
  "variableLabels nodeSystemContainerLogsInodes = [''node'', ''container'']"
  "variableLabels nodeSystemContainerLogsInodesUsed = [''node'', ''container'']"
  "variableLabels nodeSystemContainerCPUUsageNanoCores = [''node'', ''container'']"
  "variableLabels nodeSystemContainerCPUUsageCoreNanoSeconds = [''node'', ''container'']"
  "variableLabels nodeSystemContainerMemoryAvailableBytes = [''node'', ''container'']"
  "variableLabels nodeSystemContainerMemoryUsageBytes = [''node'', ''container'']"
  "variableLabels nodeSystemContainerMemoryWorkingSetBytes = [''node'', ''container'']"
  "variableLabels nodeSystemContainerMemoryRSSBytes = [''node'', ''container'']"
  "variableLabels nodeSystemContainerMemoryPageFaults = [''node'', ''container'']"
  "variableLabels nodeSystemContainerMemoryMajorPageFaults = [''node'', ''container'']"
  "variableLabels nodeSystemContainerSwapAvailableBytes = [''node'', ''container'']"
  "variableLabels nodeSystemContainerSwapUsageBytes = [''node'', ''container'']"
  "variableLabels nodeSystemContainerAcceleratorMemoryTotal = [''node'', ''container'', ''id'', ''model'', ''make'']"
  "variableLabels nodeSystemContainerAcceleratorMemoryUsed = [''node'', ''container'', ''id'', ''model'', ''make'']"
  "variableLabels nodeSystemContainerAcceleratorDutyCycle = [''node'', ''container'', ''id'', ''model'', ''make'']"
  "variableLabels errors = [''type'']"
  by (simp_all add: desc_defs NewDesc_def)

lemmas fixture_defs = noFs_def noCPU_def noMemory_def noRuntime_def bareNode_def
  bareContainer_def barePod_def

subsection \<open>Rounding to \<^verbatim>\<open>float64\<close>\<close>

lemma bitLen_le: "0 \<le> n \<Longrightarrow> n < 2 ^ k \<Longrightarrow> bitLen n \<le> k"
proof (induction k arbitrary: n)
  case 0
  then have "n = 0" by simp
  then show ?case by (simp add: bitLen.simps)
next
  case (Suc k)
  show ?case
  proof (cases "n \<le> 0")
    case True
    then show ?thesis by (simp add: bitLen.simps)
  next
    case False
    have "n div 2 < 2 ^ k" using Suc.prems by simp
    moreover have "0 \<le> n div 2" using Suc.prems by simp
    ultimately have "bitLen (n div 2) \<le> k" by (rule Suc.IH[rotated])
    then show ?thesis using False by (subst bitLen.simps) simp
  qed
qed

lemma roundToEven53_small: "0 \<le> n \<Longrightarrow> n < 2 ^ 53 \<Longrightarrow> roundToEven53 n = n"
  using bitLen_le [of n 53] by (simp add: roundToEven53_def)

lemma bitLen_pow53: "bitLen 9007199254740992 = 54"
  by code_simp

lemma roundToEven53_pow53: "roundToEven53 9007199254740992 = 9007199254740992"
  by (simp add: roundToEven53_def bitLen_pow53)

lemma roundToEven53_exact: "0 \<le> n \<Longrightarrow> n \<le> 9007199254740992 \<Longrightarrow> roundToEven53 n = n"
  using roundToEven53_small [of n] roundToEven53_pow53 by (cases "n = 9007199254740992") auto

lemma float64_of_int_exact: "\<bar>i\<bar> \<le> 9007199254740992 \<Longrightarrow> float64_of_int i = i"
  by (auto simp: float64_of_int_def roundToEven53_exact)

lemma float64_inc_exact: "0 \<le> x \<Longrightarrow> x < 9007199254740992 \<Longrightarrow> float64_inc x = x + 1"
  by (simp add: float64_inc_def float64_of_int_exact)

lemma float64_inc_0: "float64_inc 0 = 1"
  by code_simp

lemma float64_of_uint64_0: "float64_of_uint64 0 = 0"
  by code_simp

subsection \<open>Rounding to the nearest \<^verbatim>\<open>float64\<close>, ties to even\<close>






subsection \<open>Steps\<close>

lemma delivers_MustNewConstMetric:
  "delivers P (MustNewConstMetric d t v lvs) =
     (length lvs = length (variableLabels d) \<and> P (constMetric d t v lvs))"
  by (simp add: delivers_def MustNewConstMetric_def)

lemma list_all_pushMetrics:
  "list_all P (pushMetrics d v lvs) =
     (\<forall>x. v = Some x \<longrightarrow> P (MustNewConstMetric d GaugeValue (float64_of_uint64 x) lvs))"
  by (cases v) (simp_all add: pushMetrics_def)

lemma list_all_case_option:
  "list_all P (case v of None \<Rightarrow> [] | Some x \<Rightarrow> f x) = (\<forall>x. v = Some x \<longrightarrow> list_all P (f x))"
  by (cases v) simp_all

lemma list_all_concat_map:
  "list_all P (concat (map f xs)) = (\<forall>x\<in>set xs. list_all P (f x))"
  by (induction xs) simp_all

lemmas list_all_blocks = list_all_pushMetrics list_all_case_option list_all_concat_map
  delivers_MustNewConstMetric


lemma delivered_Some: "list_all (delivers P) xs \<Longrightarrow> xs = map Some (map the xs)"
  by (induction xs) (auto simp: delivers_def split: option.splits)

lemma delivered_the: "list_all (delivers P) xs \<Longrightarrow> list_all P (map the xs)"
  by (induction xs) (auto simp: delivers_def split: option.splits)

lemma runSteps_Some: "runSteps (map Some ms) = (ms, Returned)"
  by (induction ms) simp_all

lemma runSteps_Some_None: "runSteps (map Some ms @ None # rest) = (ms, Panicked)"
  by (induction ms) simp_all

lemma runSteps_delivered: "list_all (delivers P) xs \<Longrightarrow> runSteps xs = (map the xs, Returned)"
  using delivered_Some [of P xs] runSteps_Some [of "map the xs"] by simp

lemma runSteps_delivered_None:
  "list_all (delivers P) xs \<Longrightarrow> runSteps (xs @ None # rest) = (map the xs, Panicked)"
  using delivered_Some [of P xs] runSteps_Some_None [of "map the xs" rest] by simp

subsection \<open>Every metric fits its descriptor\<close>

lemmas labelsFit_simps = list_all_blocks labelsFit_def constMetric_def NewDesc_def desc_defs

lemma labelsFit_systemContainer: "list_all (delivers labelsFit) (systemContainerMetrics n c)"
  by (simp add: systemContainerMetrics_def labelsFit_simps)

lemma labelsFit_nodeFs: "list_all (delivers labelsFit) (nodeFsMetrics n v)"
  by (simp add: nodeFsMetrics_def labelsFit_simps)

lemma labelsFit_nodeRuntimeImageFs: "list_all (delivers labelsFit) (nodeRuntimeImageFsMetrics n v)"
  by (simp add: nodeRuntimeImageFsMetrics_def labelsFit_simps)

lemma labelsFit_nodeRuntimeContainerFs: "list_all (delivers labelsFit) (nodeRuntimeContainerFsMetrics n v)"
  by (simp add: nodeRuntimeContainerFsMetrics_def labelsFit_simps)

lemma labelsFit_nodeCPU: "list_all (delivers labelsFit) (nodeCPUMetrics n v)"
  by (simp add: nodeCPUMetrics_def labelsFit_simps)

lemma labelsFit_nodeMemory: "list_all (delivers labelsFit) (nodeMemoryMetrics n v)"
  by (simp add: nodeMemoryMetrics_def labelsFit_simps)

lemma labelsFit_nodeSwap: "list_all (delivers labelsFit) (nodeSwapMetrics n v)"
  by (simp add: nodeSwapMetrics_def labelsFit_simps)

lemma labelsFit_nodeRlimit: "list_all (delivers labelsFit) (nodeRlimitMetrics n v)"
  by (simp add: nodeRlimitMetrics_def labelsFit_simps)

lemma labelsFit_nodeNetwork: "list_all (delivers labelsFit) (nodeNetworkMetrics n v)"
  by (simp add: nodeNetworkMetrics_def labelsFit_simps)

lemma labelsFit_podVolume: "list_all (delivers labelsFit) (podVolumeMetrics n ns p v)"
  by (simp add: podVolumeMetrics_def labelsFit_simps Let_def)

lemma labelsFit_container: "list_all (delivers labelsFit) (containerMetrics n ns p c)"
  by (simp add: containerMetrics_def labelsFit_simps)

lemma labelsFit_pod: "list_all (delivers labelsFit) (podMetrics n p)"
  by (simp add: podMetrics_def Let_def list_all_blocks labelsFit_podVolume labelsFit_container)
    (simp add: labelsFit_simps)

subsection \<open>The stage of each block\<close>

lemmas stage_simps = list_all_blocks constMetric_def NewDesc_def BuildFQName_def stage_def
  desc_defs

lemma stage_systemContainer: "list_all (delivers (\<lambda>m. stage (desc m) = 0)) (systemContainerMetrics n c)"
  by (simp add: systemContainerMetrics_def stage_simps)

lemma stage_nodeFs: "list_all (delivers (\<lambda>m. stage (desc m) = 1)) (nodeFsMetrics n v)"
  by (simp add: nodeFsMetrics_def stage_simps)

lemma stage_nodeRuntimeImageFs: "list_all (delivers (\<lambda>m. stage (desc m) = 2)) (nodeRuntimeImageFsMetrics n v)"
  by (simp add: nodeRuntimeImageFsMetrics_def stage_simps)

lemma stage_nodeRuntimeContainerFs: "list_all (delivers (\<lambda>m. stage (desc m) = 3)) (nodeRuntimeContainerFsMetrics n v)"
  by (simp add: nodeRuntimeContainerFsMetrics_def stage_simps)

lemma stage_nodeCPU: "list_all (delivers (\<lambda>m. stage (desc m) = 4)) (nodeCPUMetrics n v)"
  by (simp add: nodeCPUMetrics_def stage_simps)

lemma stage_nodeMemory: "list_all (delivers (\<lambda>m. stage (desc m) = 5)) (nodeMemoryMetrics n v)"
  by (simp add: nodeMemoryMetrics_def stage_simps)

lemma stage_nodeSwap: "list_all (delivers (\<lambda>m. stage (desc m) = 6)) (nodeSwapMetrics n v)"
  by (simp add: nodeSwapMetrics_def stage_simps)

lemma stage_nodeRlimit: "list_all (delivers (\<lambda>m. stage (desc m) = 7)) (nodeRlimitMetrics n v)"
  by (simp add: nodeRlimitMetrics_def stage_simps)

lemma stage_nodeNetwork: "list_all (delivers (\<lambda>m. stage (desc m) = 8)) (nodeNetworkMetrics n v)"
  by (simp add: nodeNetworkMetrics_def stage_simps)

lemma stage_podVolume: "list_all (delivers (\<lambda>m. stage (desc m) = 9)) (podVolumeMetrics n ns p v)"
  by (simp add: podVolumeMetrics_def stage_simps Let_def)

lemma stage_container: "list_all (delivers (\<lambda>m. stage (desc m) = 9)) (containerMetrics n ns p c)"
  by (simp add: containerMetrics_def stage_simps)

lemma stage_pod: "list_all (delivers (\<lambda>m. stage (desc m) = 9)) (podMetrics n p)"
  by (simp add: podMetrics_def Let_def list_all_blocks stage_podVolume stage_container)
    (simp add: stage_simps)

lemma stage_errors: "stage errors = 10"
  by (simp add: errors_def NewDesc_def BuildFQName_def stage_def)

subsection \<open>The steps of a summary\<close>

lemma labelsFit_summary_before:
  "list_all (delivers labelsFit)
     (concat (map (systemContainerMetrics (NodeName (Node s))) (SystemContainers (Node s))) @
      nodeFsMetrics (NodeName (Node s)) (Fs (Node s)))"
  by (simp add: list_all_concat_map labelsFit_systemContainer labelsFit_nodeFs)

lemma labelsFit_summary:
  "Runtime (Node s) \<noteq> None \<Longrightarrow> list_all (delivers labelsFit) (summarySteps s)"
  by (auto simp: summarySteps_def Let_def list_all_concat_map labelsFit_systemContainer
      labelsFit_nodeFs labelsFit_nodeRuntimeImageFs labelsFit_nodeRuntimeContainerFs
      labelsFit_nodeCPU labelsFit_nodeMemory labelsFit_nodeSwap labelsFit_nodeRlimit
      labelsFit_nodeNetwork labelsFit_pod)

lemma summarySteps_no_runtime:
  "Runtime (Node s) = None \<Longrightarrow>
     summarySteps s =
       (concat (map (systemContainerMetrics (NodeName (Node s))) (SystemContainers (Node s))) @
        nodeFsMetrics (NodeName (Node s)) (Fs (Node s))) @ None # []"
  by (simp add: summarySteps_def Let_def)

lemma collectSummary_runtime:
  "Runtime (Node s) \<noteq> None \<Longrightarrow> collectSummary s = (map the (summarySteps s), Returned)"
  unfolding collectSummary_def by (rule runSteps_delivered [OF labelsFit_summary])

lemma collectSummary_no_runtime:
  "Runtime (Node s) = None \<Longrightarrow>
     collectSummary s =
       (map the (concat (map (systemContainerMetrics (NodeName (Node s))) (SystemContainers (Node s))) @
                 nodeFsMetrics (NodeName (Node s)) (Fs (Node s))),
        Panicked)"
  unfolding collectSummary_def
  by (simp only: summarySteps_no_runtime runSteps_delivered_None [OF labelsFit_summary_before])

text \<open>
  The traversal panics exactly on a summary without the runtime group: no send of
  \<^verbatim>\<open>Collect\<close> has a number of label values that differs from its descriptor's.
\<close>

lemma collectSummary_outcome:
  "snd (collectSummary s) = (if Runtime (Node s) = None then Panicked else Returned)"
  by (simp add: collectSummary_runtime collectSummary_no_runtime)

lemma collectSummary_label_count: "list_all labelsFit (fst (collectSummary s))"
proof (cases "Runtime (Node s)")
  case None
  then show ?thesis
    using delivered_the [OF labelsFit_summary_before [of s]] by (simp add: collectSummary_no_runtime)
next
  case (Some r)
  then show ?thesis
    using delivered_the [OF labelsFit_summary [of s]] by (simp add: collectSummary_runtime)
qed

lemma runSteps_errors:
  "runSteps [MustNewConstMetric errors CounterValue v [l]] =
     ([constMetric errors CounterValue v [l]], Returned)"
  by (simp add: MustNewConstMetric_def errors_def NewDesc_def)

lemma Collect_label_count: "list_all labelsFit (sent (Collect unmarshal w s))"
  by (simp add: Collect_def Let_def parse_def case_prod_beta collectSummary_label_count
      runSteps_errors split: option.split)
    (simp add: labelsFit_def constMetric_def errors_def NewDesc_def)

subsection \<open>The order of the stages\<close>

lemma list_all_stage_mono:
  "list_all (\<lambda>m. stage (desc m) = k) xs \<Longrightarrow> j \<le> k \<Longrightarrow> list_all (\<lambda>m. j \<le> stage (desc m)) xs"
  by (induction xs) auto

lemma sorted_stage_block:
  "list_all (\<lambda>m. stage (desc m) = k) xs \<Longrightarrow> sorted (map (stage \<circ> desc) xs)"
  by (induction xs) (auto simp: list_all_iff)

lemma sorted_stage_append:
  assumes "list_all (\<lambda>m. stage (desc m) = k) xs"
    and "list_all (\<lambda>m. k \<le> stage (desc m)) ys"
    and "sorted (map (stage \<circ> desc) ys)"
  shows "sorted (map (stage \<circ> desc) (xs @ ys))"
  using assms sorted_stage_block [OF assms(1)] by (auto simp: sorted_append list_all_iff)

lemma list_all_ge_append:
  "list_all (\<lambda>m. stage (desc m) = k) xs \<Longrightarrow> j \<le> k \<Longrightarrow> list_all (\<lambda>m. k \<le> stage (desc m)) ys
     \<Longrightarrow> list_all (\<lambda>m. j \<le> stage (desc m)) (xs @ ys)"
  by (auto simp: list_all_iff)

lemma sorted_ge_step:
  assumes "list_all (\<lambda>m. stage (desc m) = k) xs" and "k \<le> j"
    and "list_all (\<lambda>m. j \<le> stage (desc m)) ys \<and> sorted (map (stage \<circ> desc) ys)"
  shows "list_all (\<lambda>m. k \<le> stage (desc m)) (xs @ ys) \<and> sorted (map (stage \<circ> desc) (xs @ ys))"
proof
  from assms have ge: "list_all (\<lambda>m. k \<le> stage (desc m)) ys"
    by (auto simp: list_all_iff)
  from assms(1) ge show "list_all (\<lambda>m. k \<le> stage (desc m)) (xs @ ys)"
    by (auto simp: list_all_iff)
  from assms(1) ge assms(3) show "sorted (map (stage \<circ> desc) (xs @ ys))"
    by (blast intro: sorted_stage_append)
qed

lemma sorted_ge_last:
  "list_all (\<lambda>m. stage (desc m) = k) xs
     \<Longrightarrow> list_all (\<lambda>m. k \<le> stage (desc m)) xs \<and> sorted (map (stage \<circ> desc) xs)"
  by (simp add: sorted_stage_block list_all_stage_mono)

lemma stage_systemContainers:
  "list_all (delivers (\<lambda>m. stage (desc m) = 0)) (concat (map (systemContainerMetrics n) cs))"
  by (simp add: list_all_concat_map stage_systemContainer)

lemma stage_pods: "list_all (delivers (\<lambda>m. stage (desc m) = 9)) (concat (map (podMetrics n) ps))"
  by (simp add: list_all_concat_map stage_pod)

lemma sent_before:
  "map the (concat (map (systemContainerMetrics n) cs) @ nodeFsMetrics n fs) =
     map the (concat (map (systemContainerMetrics n) cs)) @ map the (nodeFsMetrics n fs)"
  by simp

lemma sent_runtime:
  "Runtime (Node s) = Some r \<Longrightarrow>
     fst (collectSummary s) =
       map the (concat (map (systemContainerMetrics (NodeName (Node s))) (SystemContainers (Node s)))) @
       map the (nodeFsMetrics (NodeName (Node s)) (Fs (Node s))) @
       map the (nodeRuntimeImageFsMetrics (NodeName (Node s)) (ImageFs r)) @
       map the (nodeRuntimeContainerFsMetrics (NodeName (Node s)) (ContainerFs r)) @
       map the (nodeCPUMetrics (NodeName (Node s)) (Node_CPU (Node s))) @
       map the (nodeMemoryMetrics (NodeName (Node s)) (Node_Memory (Node s))) @
       map the (nodeSwapMetrics (NodeName (Node s)) (Node_Swap (Node s))) @
       map the (nodeRlimitMetrics (NodeName (Node s)) (Rlimit (Node s))) @
       map the (nodeNetworkMetrics (NodeName (Node s)) (Node_Network (Node s))) @
       map the (concat (map (podMetrics (NodeName (Node s))) (Pods s)))"
  by (simp add: collectSummary_runtime) (simp add: summarySteps_def Let_def)

lemma collectSummary_sorted: "sorted (map (stage \<circ> desc) (fst (collectSummary s)))"
proof (cases "Runtime (Node s)")
  case None
  have "list_all (\<lambda>m. 0 \<le> stage (desc m))
          (map the (concat (map (systemContainerMetrics (NodeName (Node s))) (SystemContainers (Node s)))) @
           map the (nodeFsMetrics (NodeName (Node s)) (Fs (Node s))))
        \<and> sorted (map (stage \<circ> desc)
          (map the (concat (map (systemContainerMetrics (NodeName (Node s))) (SystemContainers (Node s)))) @
           map the (nodeFsMetrics (NodeName (Node s)) (Fs (Node s)))))"
    by (rule sorted_ge_step [OF delivered_the [OF stage_systemContainers] _
          sorted_ge_last [OF delivered_the [OF stage_nodeFs]]]) simp
  with None show ?thesis by (simp add: collectSummary_no_runtime)
next
  case (Some r)
  let ?n = "NodeName (Node s)"
  note s9 = sorted_ge_last [OF delivered_the [OF stage_pods [of ?n "Pods s"]]]
  note s8 = sorted_ge_step [OF delivered_the [OF stage_nodeNetwork [of ?n "Node_Network (Node s)"]] _ s9]
  note s7 = sorted_ge_step [OF delivered_the [OF stage_nodeRlimit [of ?n "Rlimit (Node s)"]] _ s8]
  note s6 = sorted_ge_step [OF delivered_the [OF stage_nodeSwap [of ?n "Node_Swap (Node s)"]] _ s7]
  note s5 = sorted_ge_step [OF delivered_the [OF stage_nodeMemory [of ?n "Node_Memory (Node s)"]] _ s6]
  note s4 = sorted_ge_step [OF delivered_the [OF stage_nodeCPU [of ?n "Node_CPU (Node s)"]] _ s5]
  note s3 = sorted_ge_step [OF delivered_the [OF stage_nodeRuntimeContainerFs [of ?n "ContainerFs r"]] _ s4]
  note s2 = sorted_ge_step [OF delivered_the [OF stage_nodeRuntimeImageFs [of ?n "ImageFs r"]] _ s3]
  note s1 = sorted_ge_step [OF delivered_the [OF stage_nodeFs [of ?n "Fs (Node s)"]] _ s2]
  note s0 = sorted_ge_step [OF delivered_the [OF stage_systemContainers [of ?n "SystemContainers (Node s)"]] _ s1]
  from s0 show ?thesis by (simp add: sent_runtime [OF Some])
qed

lemma filter_stage_other:
  "list_all (\<lambda>m. stage (desc m) = k) xs \<Longrightarrow> k \<noteq> j \<Longrightarrow> filter (\<lambda>m. stage (desc m) = j) xs = []"
  by (induction xs) auto

lemma filter_stage_same:
  "list_all (\<lambda>m. stage (desc m) = k) xs \<Longrightarrow> filter (\<lambda>m. stage (desc m) = k) xs = xs"
  by (induction xs) auto

lemma collectSummary_pods:
  assumes "Runtime (Node s) = Some r"
  shows "map Some (filter (\<lambda>m. stage (desc m) = 9) (fst (collectSummary s))) =
           concat (map (podMetrics (NodeName (Node s))) (Pods s))"
proof -
  have "filter (\<lambda>m. stage (desc m) = 9) (fst (collectSummary s)) =
      map the (concat (map (podMetrics (NodeName (Node s))) (Pods s)))"
    by (simp only: sent_runtime [OF assms] filter_append
        filter_stage_other [OF delivered_the [OF stage_systemContainers]]
        filter_stage_other [OF delivered_the [OF stage_nodeFs]]
        filter_stage_other [OF delivered_the [OF stage_nodeRuntimeImageFs]]
        filter_stage_other [OF delivered_the [OF stage_nodeRuntimeContainerFs]]
        filter_stage_other [OF delivered_the [OF stage_nodeCPU]]
        filter_stage_other [OF delivered_the [OF stage_nodeMemory]]
        filter_stage_other [OF delivered_the [OF stage_nodeSwap]]
        filter_stage_other [OF delivered_the [OF stage_nodeRlimit]]
        filter_stage_other [OF delivered_the [OF stage_nodeNetwork]]
        filter_stage_same [OF delivered_the [OF stage_pods]]) simp
  with delivered_Some [OF stage_pods [of "NodeName (Node s)" "Pods s"]] show ?thesis by simp
qed

lemma collectSummary_stage_le: "list_all (\<lambda>m. stage (desc m) \<le> 9) (fst (collectSummary s))"
proof -
  have le: "\<And>k xs. list_all (delivers (\<lambda>m. stage (desc m) = k)) xs \<Longrightarrow> k \<le> 9 \<Longrightarrow>
      list_all (\<lambda>m. stage (desc m) \<le> 9) (map the xs)"
    using delivered_the by (fastforce simp: list_all_iff)
  show ?thesis
  proof (cases "Runtime (Node s)")
    case None
    then show ?thesis
      by (simp add: collectSummary_no_runtime le [OF stage_systemContainers] le [OF stage_nodeFs])
  next
    case (Some r)
    show ?thesis
      by (simp only: sent_runtime [OF Some] list_all_append)
        (simp add: le [OF stage_systemContainers] le [OF stage_nodeFs]
          le [OF stage_nodeRuntimeImageFs] le [OF stage_nodeRuntimeContainerFs] le [OF stage_nodeCPU]
          le [OF stage_nodeMemory] le [OF stage_nodeSwap] le [OF stage_nodeRlimit]
          le [OF stage_nodeNetwork] le [OF stage_pods])
  qed
qed

lemma collectSummary_no_errors: "errors \<notin> desc ` set (fst (collectSummary s))"
proof
  assume "errors \<in> desc ` set (fst (collectSummary s))"
  then obtain m where "m \<in> set (fst (collectSummary s))" and "desc m = errors" by auto
  with collectSummary_stage_le [of s] have "stage errors \<le> 9" by (auto simp: list_all_iff)
  then show False by (simp add: stage_errors)
qed

subsection \<open>Every observation carries a leaf of the summary\<close>














subsection \<open>The error count over a sequence of pulls\<close>

text \<open>
  From a fresh scraper the count stays between 0 and \<open>2\<^sup>5\<^sup>3\<close>, where every increment but the
  last is exact, and no pull decreases it.
\<close>

lemma float64_inc_mono:
  assumes "0 \<le> x" and "x \<le> 2 ^ 53"
  shows "x \<le> float64_inc x \<and> float64_inc x \<le> 2 ^ 53"
proof (cases "x = 2 ^ 53")
  case True
  have "float64_inc 9007199254740992 = 9007199254740992" by code_simp
  with True show ?thesis by simp
next
  case False
  with assms have "float64_inc x = x + 1" by (simp add: float64_inc_exact)
  with assms False show ?thesis by simp
qed

lemma Collect_errCnt_mono:
  assumes "0 \<le> errCnt s" and "errCnt s \<le> 2 ^ 53"
  shows "errCnt s \<le> errCnt (scraper (Collect unmarshal w s))
       \<and> errCnt (scraper (Collect unmarshal w s)) \<le> 2 ^ 53"
  using assms float64_inc_mono [OF assms]
  by (simp add: Collect_def Let_def parse_def case_prod_beta runSteps_errors split: option.split sum.split)

lemma CollectAll_errCnt_mono:
  assumes "0 \<le> errCnt s" and "errCnt s \<le> 2 ^ 53"
  shows "sorted (errCnt s # map (\<lambda>r. errCnt (scraper r)) (CollectAll unmarshal ws s))"
  using assms
proof (induction ws arbitrary: s)
  case Nil
  then show ?case by simp
next
  case (Cons w ws)
  let ?s' = "scraper (Collect unmarshal w s)"
  from Collect_errCnt_mono [OF Cons.prems, of unmarshal w]
  have le: "errCnt s \<le> errCnt ?s'" and bound: "errCnt ?s' \<le> 2 ^ 53" by simp_all
  from Cons.prems(1) le have "0 \<le> errCnt ?s'" by simp
  from Cons.IH [OF this bound]
  have "sorted (errCnt ?s' # map (\<lambda>r. errCnt (scraper r)) (CollectAll unmarshal ws ?s'))" .
  with le show ?case by (auto simp: Let_def)
qed

subsection \<open>Failed pulls\<close>

text \<open>
  C1. Claimed: the emitted error count never decreases, and every failed pull, a parse
  failure included, adds exactly one to it before it is emitted. The three fetch failures
  do (\<^verbatim>\<open>s.errCnt++\<close> on lines 802, 814 and 829); the parse-failure branch (lines 841 to 850) sends
  \<^verbatim>\<open>s.errCnt\<close> without incrementing it. On a fresh scraper, a pull whose body does not decode
  emits the count 0 and leaves it at 0, where a pull answered with status 503 leaves it at 1.
\<close>

theorem Collect_parse_failure_keeps_errCnt:
  "Collect undecodable (respond 200 (Some [])) scraper0 =
     \<lparr>scraper = scraper0,
      sent = [constMetric errors CounterValue 0 [''parse body error'']],
      outcome = Returned\<rparr>
   \<and> errCnt (scraper (Collect undecodable (respond 200 (Some [])) scraper0)) = 0
   \<and> errCnt (scraper (Collect undecodable (respond 503 (Some [])) scraper0)) = 1"
  by (simp add: Collect_def parse_def StatusOK_def scraper0_def NewScraper_def undecodable_def
      respond_def float64_inc_0 runSteps_errors)

text \<open>
  C6. When the body does not decode, \<^verbatim>\<open>Collect\<close> sends exactly one metric, the error counter
  with the label value \<^verbatim>\<open>parse body error\<close>, and no data observation; the scraper is unchanged.
\<close>

theorem Collect_parse_failure:
  assumes "\<not> NewRequest_err w" and "\<not> ReadFile_err w" and "Do w = Some resp"
    and "StatusCode resp = 200" and "ReadAll resp = Some body" and "unmarshal body = None"
  shows "Collect unmarshal w s =
     \<lparr>scraper = s,
      sent = [constMetric errors CounterValue (errCnt s) [''parse body error'']],
      outcome = Returned\<rparr>"
  using assms by (simp add: Collect_def parse_def StatusOK_def runSteps_errors)

theorem Collect_parse_failure_witness:
  "Collect undecodable (respond 200 (Some [1, 2])) scraper0 =
     \<lparr>scraper = scraper0,
      sent = [constMetric errors CounterValue (errCnt scraper0) [''parse body error'']],
      outcome = Returned\<rparr>"
  using Collect_parse_failure [of "respond 200 (Some [1, 2])" "\<lparr>StatusCode = 200, ReadAll = Some [1, 2]\<rparr>"
      "[1, 2]" undecodable scraper0]
  by (simp add: respond_def undecodable_def)

text \<open>
  C7. When the status of the response is not 200, \<^verbatim>\<open>Collect\<close> sends exactly one metric, the
  error counter with the label value \<^verbatim>\<open>status error\<close> and the incremented count, which is one
  more than the count before (below \<open>2\<^sup>5\<^sup>3\<close>, where a \<^verbatim>\<open>float64\<close> increment is exact); it sends
  no data observation, and the result is the same whatever the decoder is: the decoder is
  not called.
\<close>

theorem Collect_status_failure:
  assumes "\<not> NewRequest_err w" and "\<not> ReadFile_err w" and "Do w = Some resp"
    and "StatusCode resp \<noteq> 200"
  shows "sent (Collect unmarshal w s) =
           [constMetric errors CounterValue (float64_inc (errCnt s)) [''status error'']]
       \<and> errCnt (scraper (Collect unmarshal w s)) = float64_inc (errCnt s)
       \<and> (0 \<le> errCnt s \<and> errCnt s < 2 ^ 53 \<longrightarrow> float64_inc (errCnt s) = errCnt s + 1)
       \<and> outcome (Collect unmarshal w s) = Returned
       \<and> Collect unmarshal w s = Collect unmarshal' w s"
  using assms by (simp add: Collect_def StatusOK_def Let_def float64_inc_exact runSteps_errors)

theorem Collect_status_failure_witness:
  "sent (Collect (decodesTo scenarioA) (respond 503 (Some [])) scraper0) =
           [constMetric errors CounterValue 1 [''status error'']]
       \<and> errCnt (scraper (Collect (decodesTo scenarioA) (respond 503 (Some [])) scraper0)) = 1
       \<and> errCnt scraper0 = 0
       \<and> outcome (Collect (decodesTo scenarioA) (respond 503 (Some [])) scraper0) = Returned
       \<and> Collect (decodesTo scenarioA) (respond 503 (Some [])) scraper0 =
           Collect undecodable (respond 503 (Some [])) scraper0"
proof -
  have a: "\<not> NewRequest_err (respond 503 (Some []))" by (simp add: respond_def)
  have b: "\<not> ReadFile_err (respond 503 (Some []))" by (simp add: respond_def)
  have c: "Do (respond 503 (Some [])) = Some \<lparr>StatusCode = 503, ReadAll = Some []\<rparr>"
    by (simp add: respond_def)
  have d: "StatusCode \<lparr>StatusCode = 503, ReadAll = Some []\<rparr> \<noteq> 200" by simp
  have e: "errCnt scraper0 = 0" by (simp add: scraper0_def NewScraper_def)
  note th = Collect_status_failure [OF a b c d, of "decodesTo scenarioA" scraper0 undecodable]
  show ?thesis using th unfolding e float64_inc_0 by blast
qed

subsection \<open>Pulls that decode: evaluations\<close>

lemma Collect_decoded:
  "Collect (decodesTo summary) (respond 200 (Some body)) s =
     \<lparr>scraper = s, sent = fst (collectSummary summary), outcome = snd (collectSummary summary)\<rparr>"
  by (simp add: Collect_def parse_def StatusOK_def decodesTo_def respond_def split: prod.split)

lemma float64_of_uint64_7: "float64_of_uint64 7 = 7" by code_simp
lemma float64_of_uint64_10: "float64_of_uint64 10 = 10" by code_simp
lemma float64_of_uint64_40: "float64_of_uint64 40 = 40" by code_simp
lemma float64_of_uint64_50: "float64_of_uint64 50 = 50" by code_simp
lemma float64_of_uint64_capacity: "float64_of_uint64 107361579008 = 107361579008" by code_simp

text \<open>
  C3. Claimed: the label values of every observation follow the order of its descriptor's
  labels; for an accelerator of a pod's container the value at the position declared
  \<^verbatim>\<open>namespace\<close> is the pod's namespace and the value at \<^verbatim>\<open>pod\<close> is the pod's name. The three
  accelerator descriptors declare \<^verbatim>\<open>node, namespace, pod, container, id, model, make\<close> (lines 247,
  252, 257), and the sends of lines 1065 to 1067 pass \<^verbatim>\<open>nodeName, podName, namespace\<close>, where
  every other send of the pod loop passes \<^verbatim>\<open>nodeName, namespace, podName\<close>. For the pod
  \<^verbatim>\<open>trainer-0\<close> of the namespace \<^verbatim>\<open>ml\<close> the value at \<^verbatim>\<open>namespace\<close> is \<^verbatim>\<open>trainer-0\<close> and the value at
  \<^verbatim>\<open>pod\<close> is \<^verbatim>\<open>ml\<close>.
\<close>

theorem accelerator_labels_swapped:
  "sent (Collect (decodesTo gpuSummary) (respond 200 (Some [])) scraper0) =
     [constMetric containerAcceleratorMemoryUsed GaugeValue 10
        [''node-1'', ''trainer-0'', ''ml'', ''cuda'', ''GPU-0'', ''a100'', ''nvidia''],
      constMetric containerAcceleratorMemoryTotal GaugeValue 40
        [''node-1'', ''trainer-0'', ''ml'', ''cuda'', ''GPU-0'', ''a100'', ''nvidia''],
      constMetric containerAcceleratorDutyCycle GaugeValue 50
        [''node-1'', ''trainer-0'', ''ml'', ''cuda'', ''GPU-0'', ''a100'', ''nvidia'']]
   \<and> variableLabels containerAcceleratorMemoryUsed =
        [''node'', ''namespace'', ''pod'', ''container'', ''id'', ''model'', ''make'']
   \<and> variableLabels containerAcceleratorMemoryTotal =
        [''node'', ''namespace'', ''pod'', ''container'', ''id'', ''model'', ''make'']
   \<and> variableLabels containerAcceleratorDutyCycle =
        [''node'', ''namespace'', ''pod'', ''container'', ''id'', ''model'', ''make'']
   \<and> PodRef_Namespace (PodRef (hd (Pods gpuSummary))) = ''ml''
   \<and> PodRef_Name (PodRef (hd (Pods gpuSummary))) = ''trainer-0''"
  by (simp add: Collect_decoded traversal_defs variableLabels_descs gpuSummary_def fixture_defs Let_def
      float64_of_uint64_10 float64_of_uint64_40 float64_of_uint64_50
      containerAcceleratorMemoryUsed_def containerAcceleratorMemoryTotal_def
      containerAcceleratorDutyCycle_def NewDesc_def)

text \<open>
  C4. Claimed: a \<^verbatim>\<open>MajorPageFaults\<close> leaf that is present at the scope of the node, of a pod or
  of a pod's container gives exactly one \<^verbatim>\<open>major_page_faults\<close> observation for that scope. The
  three memory blocks (lines 929 to 935, 979 to 985 and 1051 to 1057) stop at \<^verbatim>\<open>PageFaults\<close>;
  only the system-container block sends \<^verbatim>\<open>MajorPageFaults\<close> (line 882), although \<^verbatim>\<open>NewScraper\<close>
  builds and \<^verbatim>\<open>Describe\<close> announces the descriptors of all four scopes. With the leaf present
  at all four scopes, the only observation is the system container's.
\<close>

theorem major_page_faults_not_sent:
  "sent (Collect (decodesTo majorFaultsSummary) (respond 200 (Some [])) scraper0) =
     [constMetric nodeSystemContainerMemoryMajorPageFaults GaugeValue 7 [''node-1'', ''kubelet'']]
   \<and> outcome (Collect (decodesTo majorFaultsSummary) (respond 200 (Some [])) scraper0) = Returned"
  by (simp add: Collect_decoded traversal_defs variableLabels_descs majorFaultsSummary_def fixture_defs Let_def
      float64_of_uint64_7)

text \<open>
  C5. Claimed: an optional leaf that the document omits gives no observation, and one that
  is explicitly zero gives exactly one observation with the value 0. A node memory group
  with \<^verbatim>\<open>pageFaults\<close> 0 and \<^verbatim>\<open>majorPageFaults\<close> 0 gives the one observation of \<^verbatim>\<open>page_faults\<close>
  and none for \<^verbatim>\<open>majorPageFaults\<close>: the leaf the node's memory block never sends.
\<close>

theorem zero_major_page_faults_not_sent:
  "sent (Collect (decodesTo zeroFaultsSummary) (respond 200 (Some [])) scraper0) =
     [constMetric nodeMemoryPageFaults GaugeValue 0 [''node-1'']]
   \<and> outcome (Collect (decodesTo zeroFaultsSummary) (respond 200 (Some [])) scraper0) = Returned"
  by (simp add: Collect_decoded traversal_defs variableLabels_descs zeroFaultsSummary_def fixture_defs Let_def
      float64_of_uint64_0)

text \<open>
  C8. Claimed: for the summary of \<^verbatim>\<open>scraper_test.go\<close> (a node name, one pod, one container
  with the capacity and a zero usage of its root file system) \<^verbatim>\<open>Collect\<close> sends the two
  observations \<^verbatim>\<open>container_fs_usage_bytes\<close> 0 and \<^verbatim>\<open>container_fs_limit_bytes\<close> 107361579008. That
  summary has no runtime group, so \<^verbatim>\<open>node.Runtime\<close> is \<^verbatim>\<open>nil\<close> and line 906 panics before the
  loop over the pods: nothing is sent. With a runtime group added, and nothing else changed,
  the two observations are sent as claimed (\<open>scenarioA_with_runtime\<close>).
\<close>

theorem scenarioA_panics:
  "Collect (decodesTo scenarioA) (respond 200 (Some [])) scraper0 =
     \<lparr>scraper = scraper0, sent = [], outcome = Panicked\<rparr>
   \<and> Runtime (Node scenarioA) = None"
  by (simp add: Collect_decoded traversal_defs variableLabels_descs scenarioA_def fixture_defs Let_def)

lemma scenarioA_with_runtime:
  "Collect (decodesTo (scenarioA\<lparr>Node := (Node scenarioA)\<lparr>Runtime := Some noRuntime\<rparr>\<rparr>))
      (respond 200 (Some [])) scraper0 =
     \<lparr>scraper = scraper0,
      sent = [constMetric containerRootFsUsedBytes GaugeValue 0
                [''ip-172-20-125-125.ec2.internal'', ''kube-system'', ''aws-xray-daemon-bpmqx'', ''aws-xray-daemon''],
              constMetric containerRootFsAvailableBytes GaugeValue 107361579008
                [''ip-172-20-125-125.ec2.internal'', ''kube-system'', ''aws-xray-daemon-bpmqx'', ''aws-xray-daemon'']],
      outcome = Returned\<rparr>"
  by (simp add: Collect_decoded traversal_defs variableLabels_descs scenarioA_def fixture_defs Let_def
      float64_of_uint64_0 float64_of_uint64_capacity)

subsection \<open>Successful pulls and the error counter\<close>

text \<open>
  C2. Claimed: on a successful pull \<^verbatim>\<open>Collect\<close> sends the error counter at its current value,
  followed by the observations of the traversal, and the error counter is sent on every
  call. The path of a successful pull (lines 851 to 1070) has no send of \<^verbatim>\<open>s.errors\<close>: for a
  summary with one node CPU leaf, the one metric sent is that observation.
\<close>

theorem success_sends_no_error_counter:
  "sent (Collect (decodesTo cpuSummary) (respond 200 (Some [])) scraper0) =
     [constMetric nodeCPUUsageNanoCores GaugeValue 7 [''node-1'']]
   \<and> desc (constMetric nodeCPUUsageNanoCores GaugeValue 7 [''node-1'']) \<noteq> errors"
  by (simp add: Collect_decoded traversal_defs variableLabels_descs cpuSummary_def fixture_defs Let_def
      float64_of_uint64_7 constMetric_def nodeCPUUsageNanoCores_def errors_def NewDesc_def)

text \<open>
  C2, as amended. On a successful pull \<^verbatim>\<open>Collect\<close> sends exactly the observations of the
  traversal, none of which is the error counter, and leaves the scraper as it was. The error
  counter is among the metrics sent if and only if the request was built, the token was
  read, and the pull failed in \<^verbatim>\<open>client.Do\<close>, by its status, in \<^verbatim>\<open>io.ReadAll\<close> or in \<^verbatim>\<open>parse\<close>.
  The count is never reset: whatever the pull, the scraper after it is the scraper before
  it, or differs from it by one increment of the count, and the count is not smaller than
  before.
\<close>

theorem Collect_error_counter:
  "(\<not> NewRequest_err w \<and> \<not> ReadFile_err w \<and> Do w = Some resp \<and> StatusCode resp = 200 \<and>
      ReadAll resp = Some body \<and> unmarshal body = Some summary \<longrightarrow>
        sent (Collect unmarshal w s) = fst (collectSummary summary)
      \<and> scraper (Collect unmarshal w s) = s
      \<and> errors \<notin> desc ` set (sent (Collect unmarshal w s)))
   \<and> (errors \<in> desc ` set (sent (Collect unmarshal w s)) \<longleftrightarrow>
        \<not> NewRequest_err w \<and> \<not> ReadFile_err w \<and>
        (case Do w of
           None \<Rightarrow> True
         | Some resp \<Rightarrow>
             StatusCode resp \<noteq> 200 \<or>
             (case ReadAll resp of None \<Rightarrow> True | Some body \<Rightarrow> unmarshal body = None)))
   \<and> (scraper (Collect unmarshal w s) = s \<or>
        scraper (Collect unmarshal w s) = s\<lparr>errCnt := float64_inc (errCnt s)\<rparr>)
   \<and> (0 \<le> errCnt s \<and> errCnt s \<le> 2 ^ 53 \<longrightarrow>
        errCnt s \<le> errCnt (scraper (Collect unmarshal w s)) \<and>
        errCnt (scraper (Collect unmarshal w s)) \<le> errCnt s + 1)"
proof -
  have success: "\<not> NewRequest_err w \<and> \<not> ReadFile_err w \<and> Do w = Some resp \<and> StatusCode resp = 200 \<and>
      ReadAll resp = Some body \<and> unmarshal body = Some summary \<longrightarrow>
        sent (Collect unmarshal w s) = fst (collectSummary summary)
      \<and> scraper (Collect unmarshal w s) = s
      \<and> errors \<notin> desc ` set (sent (Collect unmarshal w s))"
    by (auto simp: Collect_def Let_def parse_def StatusOK_def case_prod_beta
        collectSummary_no_errors)
  have emitted: "errors \<in> desc ` set (sent (Collect unmarshal w s)) \<longleftrightarrow>
        \<not> NewRequest_err w \<and> \<not> ReadFile_err w \<and>
        (case Do w of
           None \<Rightarrow> True
         | Some resp \<Rightarrow>
             StatusCode resp \<noteq> 200 \<or>
             (case ReadAll resp of None \<Rightarrow> True | Some body \<Rightarrow> unmarshal body = None))"
    by (auto simp: Collect_def Let_def parse_def StatusOK_def case_prod_beta
        collectSummary_no_errors runSteps_errors constMetric_def split: option.splits)
  have step: "scraper (Collect unmarshal w s) = s \<or>
        scraper (Collect unmarshal w s) = s\<lparr>errCnt := float64_inc (errCnt s)\<rparr>"
    by (simp add: Collect_def Let_def parse_def case_prod_beta runSteps_errors
        split: option.split sum.split)
  have kept: "0 \<le> errCnt s \<and> errCnt s \<le> 2 ^ 53 \<longrightarrow>
        errCnt s \<le> errCnt (scraper (Collect unmarshal w s)) \<and>
        errCnt (scraper (Collect unmarshal w s)) \<le> errCnt s + 1"
  proof (intro impI conjI)
    assume b: "0 \<le> errCnt s \<and> errCnt s \<le> 2 ^ 53"
    then show "errCnt s \<le> errCnt (scraper (Collect unmarshal w s))"
      using Collect_errCnt_mono [of s unmarshal w] by simp
    have "float64_inc (errCnt s) \<le> errCnt s + 1"
    proof (cases "errCnt s = 2 ^ 53")
      case True
      have "float64_inc 9007199254740992 = 9007199254740992" by code_simp
      with True show ?thesis by simp
    next
      case False
      with b show ?thesis by (simp add: float64_inc_exact)
    qed
    with step show "errCnt (scraper (Collect unmarshal w s)) \<le> errCnt s + 1" by auto
  qed
  show ?thesis by (intro conjI success emitted step kept)
qed

theorem Collect_error_counter_witness:
  "sent (Collect (decodesTo cpuSummary) (respond 200 (Some [])) scraper0) = fst (collectSummary cpuSummary)
   \<and> scraper (Collect (decodesTo cpuSummary) (respond 200 (Some [])) scraper0) = scraper0
   \<and> errors \<notin> desc ` set (sent (Collect (decodesTo cpuSummary) (respond 200 (Some [])) scraper0))
   \<and> errors \<in> desc ` set (sent (Collect undecodable (respond 200 (Some [])) scraper0))
   \<and> errCnt scraper0 \<le> errCnt (scraper (Collect undecodable (respond 503 (Some [])) scraper0))
   \<and> errCnt (scraper (Collect undecodable (respond 503 (Some [])) scraper0)) \<le> errCnt scraper0 + 1"
proof -
  have h: "\<not> NewRequest_err (respond 200 (Some [])) \<and> \<not> ReadFile_err (respond 200 (Some [])) \<and>
      Do (respond 200 (Some [])) = Some \<lparr>StatusCode = 200, ReadAll = Some []\<rparr> \<and>
      StatusCode \<lparr>StatusCode = 200, ReadAll = Some []\<rparr> = 200 \<and>
      ReadAll \<lparr>StatusCode = 200, ReadAll = Some []\<rparr> = Some [] \<and>
      decodesTo cpuSummary [] = Some cpuSummary"
    by (simp add: respond_def decodesTo_def)
  have f: "\<not> NewRequest_err (respond 200 (Some [])) \<and> \<not> ReadFile_err (respond 200 (Some [])) \<and>
        (case Do (respond 200 (Some [])) of
           None \<Rightarrow> True
         | Some resp \<Rightarrow>
             StatusCode resp \<noteq> 200 \<or>
             (case ReadAll resp of None \<Rightarrow> True | Some body \<Rightarrow> undecodable body = None))"
    by (simp add: respond_def undecodable_def)
  have b: "0 \<le> errCnt scraper0 \<and> errCnt scraper0 \<le> 2 ^ 53"
    by (simp add: scraper0_def NewScraper_def)
  from h Collect_error_counter [of "respond 200 (Some [])" "\<lparr>StatusCode = 200, ReadAll = Some []\<rparr>" "[]"
      "decodesTo cpuSummary" cpuSummary scraper0]
  have 1: "sent (Collect (decodesTo cpuSummary) (respond 200 (Some [])) scraper0) = fst (collectSummary cpuSummary)
      \<and> scraper (Collect (decodesTo cpuSummary) (respond 200 (Some [])) scraper0) = scraper0
      \<and> errors \<notin> desc ` set (sent (Collect (decodesTo cpuSummary) (respond 200 (Some [])) scraper0))"
    by blast
  from f Collect_error_counter [of "respond 200 (Some [])" resp body undecodable summary scraper0]
  have 2: "errors \<in> desc ` set (sent (Collect undecodable (respond 200 (Some [])) scraper0))"
    by blast
  from b Collect_error_counter [of "respond 503 (Some [])" resp body undecodable summary scraper0]
  have 3: "errCnt scraper0 \<le> errCnt (scraper (Collect undecodable (respond 503 (Some [])) scraper0))
      \<and> errCnt (scraper (Collect undecodable (respond 503 (Some [])) scraper0)) \<le> errCnt scraper0 + 1"
    by blast
  from 1 2 3 show ?thesis by blast
qed

subsection \<open>The order of the traversal\<close>

text \<open>
  C9. Claimed: the observations follow the order node file system, image and container
  file systems of the runtime, CPU, memory, swap, rlimit, network interfaces, then the
  system containers, then the pods. The loop over \<^verbatim>\<open>node.SystemContainers\<close> (lines 853 to 895)
  comes before the node's file system (line 897): the observation of the system container
  is the first one sent.
\<close>

theorem system_containers_sent_first:
  "sent (Collect (decodesTo orderSummary) (respond 200 (Some [])) scraper0) =
     [constMetric nodeSystemContainerCPUUsageNanoCores GaugeValue 10 [''node-1'', ''kubelet''],
      constMetric nodeFsUsedBytes GaugeValue 7 [''node-1''],
      constMetric podCPUUsageNanoCores GaugeValue 40 [''node-1'', ''default'', ''web-0''],
      constMetric podCPUUsageNanoCores GaugeValue 50 [''node-1'', ''default'', ''web-1'']]"
  by (simp add: Collect_decoded traversal_defs variableLabels_descs orderSummary_def fixture_defs Let_def
      float64_of_uint64_7 float64_of_uint64_10 float64_of_uint64_40 float64_of_uint64_50)

text \<open>
  C9, as amended. The observations follow the order: system containers, node file system,
  image file system and container file system of the runtime, CPU, memory, swap, rlimit,
  network interfaces, then the pods in the order of the summary. Each block sends
  descriptors of its own stage, the stages of the metrics sent never decrease, and, when the
  runtime group is present, the metrics of stage 9 are the blocks of the pods, one after the
  other in the order of \<^verbatim>\<open>summary.Pods\<close>.
\<close>

theorem traversal_order:
  "sorted (map (stage \<circ> desc) (fst (collectSummary s)))
   \<and> (Runtime (Node s) \<noteq> None \<longrightarrow>
        map Some (filter (\<lambda>m. stage (desc m) = 9) (fst (collectSummary s))) =
          concat (map (podMetrics (NodeName (Node s))) (Pods s)))
   \<and> list_all (delivers (\<lambda>m. stage (desc m) = 0)) (systemContainerMetrics n c)
   \<and> list_all (delivers (\<lambda>m. stage (desc m) = 1)) (nodeFsMetrics n fs)
   \<and> list_all (delivers (\<lambda>m. stage (desc m) = 2)) (nodeRuntimeImageFsMetrics n fs)
   \<and> list_all (delivers (\<lambda>m. stage (desc m) = 3)) (nodeRuntimeContainerFsMetrics n fs)
   \<and> list_all (delivers (\<lambda>m. stage (desc m) = 4)) (nodeCPUMetrics n cpu)
   \<and> list_all (delivers (\<lambda>m. stage (desc m) = 5)) (nodeMemoryMetrics n mem)
   \<and> list_all (delivers (\<lambda>m. stage (desc m) = 6)) (nodeSwapMetrics n swap)
   \<and> list_all (delivers (\<lambda>m. stage (desc m) = 7)) (nodeRlimitMetrics n rlimit)
   \<and> list_all (delivers (\<lambda>m. stage (desc m) = 8)) (nodeNetworkMetrics n network)
   \<and> list_all (delivers (\<lambda>m. stage (desc m) = 9)) (podMetrics n pod)"
proof -
  have pods: "Runtime (Node s) \<noteq> None \<longrightarrow>
        map Some (filter (\<lambda>m. stage (desc m) = 9) (fst (collectSummary s))) =
          concat (map (podMetrics (NodeName (Node s))) (Pods s))"
    using collectSummary_pods [of s] by auto
  show ?thesis
    by (intro conjI pods collectSummary_sorted stage_systemContainer stage_nodeFs
        stage_nodeRuntimeImageFs stage_nodeRuntimeContainerFs stage_nodeCPU stage_nodeMemory
        stage_nodeSwap stage_nodeRlimit stage_nodeNetwork stage_pod)
qed

theorem traversal_order_witness:
  "sorted (map (stage \<circ> desc) (fst (collectSummary orderSummary)))
   \<and> map Some (filter (\<lambda>m. stage (desc m) = 9) (fst (collectSummary orderSummary))) =
       concat (map (podMetrics ''node-1'') (Pods orderSummary))
   \<and> fst (collectSummary orderSummary) =
       [constMetric nodeSystemContainerCPUUsageNanoCores GaugeValue 10 [''node-1'', ''kubelet''],
        constMetric nodeFsUsedBytes GaugeValue 7 [''node-1''],
        constMetric podCPUUsageNanoCores GaugeValue 40 [''node-1'', ''default'', ''web-0''],
        constMetric podCPUUsageNanoCores GaugeValue 50 [''node-1'', ''default'', ''web-1'']]"
proof -
  have r: "Runtime (Node orderSummary) \<noteq> None"
    by (simp add: orderSummary_def fixture_defs)
  have n: "NodeName (Node orderSummary) = ''node-1''"
    by (simp add: orderSummary_def fixture_defs)
  have e: "fst (collectSummary orderSummary) =
       [constMetric nodeSystemContainerCPUUsageNanoCores GaugeValue 10 [''node-1'', ''kubelet''],
        constMetric nodeFsUsedBytes GaugeValue 7 [''node-1''],
        constMetric podCPUUsageNanoCores GaugeValue 40 [''node-1'', ''default'', ''web-0''],
        constMetric podCPUUsageNanoCores GaugeValue 50 [''node-1'', ''default'', ''web-1'']]"
    by (simp add: traversal_defs variableLabels_descs orderSummary_def fixture_defs Let_def
      float64_of_uint64_7 float64_of_uint64_10 float64_of_uint64_40 float64_of_uint64_50)
  note th = traversal_order [of orderSummary]
  from th have 1: "sorted (map (stage \<circ> desc) (fst (collectSummary orderSummary)))" by blast
  from th r have 2: "map Some (filter (\<lambda>m. stage (desc m) = 9) (fst (collectSummary orderSummary))) =
       concat (map (podMetrics (NodeName (Node orderSummary))) (Pods orderSummary))" by blast
  from 1 2 e show ?thesis unfolding n by blast
qed

subsection \<open>The values of the observations\<close>








end
